theory Spec2Isabelle
  imports Main "HOL-Library.AList"
begin

section \<open>Strings and tool names\<close>

text \<open>
  Go strings are byte sequences; they are modelled as \<open>string\<close> (a list of 8-bit
  characters). \<open>strings.ToLower\<close> is modelled on the ASCII letters, which is all a
  protobuf identifier can contain; bytes outside \<open>A..Z\<close> are left as they are.
\<close>

definition toLowerByte :: "char \<Rightarrow> char" where
  "toLowerByte c =
     (let n = (of_char c :: nat) in if 65 \<le> n \<and> n \<le> 90 then char_of (n + 32) else c)"

definition ToLower :: "string \<Rightarrow> string" where
  "ToLower s = map toLowerByte s"

text \<open>
  \<open>strings.ReplaceAll(s, old, new)\<close>: every non-overlapping occurrence of \<open>old\<close>,
  scanning from the left, is replaced by \<open>new\<close>; an empty \<open>old\<close> matches before every
  byte and at the end.
\<close>

function ReplaceAll :: "string \<Rightarrow> string \<Rightarrow> string \<Rightarrow> string" where
  "ReplaceAll [] old new = (if old = [] then new else [])"
| "ReplaceAll (c # cs) old new =
     (if old = [] then new @ c # ReplaceAll cs old new
      else if take (length old) (c # cs) = old
           then new @ ReplaceAll (drop (length old) (c # cs)) old new
           else c # ReplaceAll cs old new)"
  by pat_completeness auto
termination
  by (relation "measure (\<lambda>(s, old, new). length s)") auto

text \<open>\<open>generateToolName\<close> of package \<open>descriptors\<close> (part\_000, lines 348--353).\<close>

definition generateToolName :: "string \<Rightarrow> string \<Rightarrow> string" where
  "generateToolName serviceName methodName =
     (let servicePart = ToLower (ReplaceAll serviceName ''.'' ''_'');
          methodPart = ToLower methodName
      in servicePart @ ''_'' @ methodPart)"

text \<open>\<open>Builder.generateToolName\<close> of package \<open>tools\<close> (part\_000, lines 885--893).\<close>

definition Builder_generateToolName :: "string \<Rightarrow> string \<Rightarrow> string" where
  "Builder_generateToolName serviceName methodName =
     (let servicePart = ToLower (ReplaceAll serviceName ''.'' ''_'');
          methodPart = ToLower methodName
      in servicePart @ ''_'' @ methodPart)"

section \<open>Errors and JSON values\<close>

text \<open>
  Every \<open>fmt.Errorf\<close> of the modelled code is one constructor; a constructor with an
  \<open>error\<close> argument wraps its cause (\<open>%w\<close>). \<open>External\<close> stands for an error made by
  a collaborator (connection manager, reflection client, descriptor loader).
\<close>

datatype Kind =
    BoolKind | EnumKind
  | Int32Kind | Sint32Kind | Uint32Kind
  | Int64Kind | Sint64Kind | Uint64Kind
  | Sfixed32Kind | Fixed32Kind | FloatKind
  | Sfixed64Kind | Fixed64Kind | DoubleKind
  | StringKind | BytesKind | MessageKind | GroupKind

datatype error =
    NotConnected                        \<comment> \<open>not connected to gRPC server\<close>
  | MethodNotFound string string        \<comment> \<open>method S.M not found\<close>
  | StreamingNotSupported               \<comment> \<open>streaming methods are not supported\<close>
  | InvokeFailed error                  \<comment> \<open>failed to invoke method: cause\<close>
  | ConnectFailed error                 \<comment> \<open>failed to connect via connection manager: cause\<close>
  | NilConnection                       \<comment> \<open>connection manager returned nil connection\<close>
  | NilConnectionAfterReconnect         \<comment> \<open>... nil connection after reconnect\<close>
  | HealthCheckFailed error             \<comment> \<open>health check failed: cause\<close>
  | LoadDescriptorSetFailed error       \<comment> \<open>failed to load descriptor set: cause\<close>
  | BuildRegistryFailed error           \<comment> \<open>failed to build file registry: cause\<close>
  | ExtractServiceInfoFailed error      \<comment> \<open>failed to extract enhanced service info: cause\<close>
  | ReflectionDiscoveryFailed error     \<comment> \<open>failed to discover services via reflection: cause\<close>
  | ReconnectExhausted int "error option"  \<comment> \<open>failed to reconnect after N attempts: last error\<close>
  | ToolNameNoMatch string              \<comment> \<open>tool name T does not match any discovered service method\<close>
  | UnsupportedFieldKind Kind           \<comment> \<open>unsupported field kind: K\<close>
  | NilMessageDescriptor                \<comment> \<open>nil message descriptor\<close>
  | MessageSchemaFailed string error    \<comment> \<open>failed to extract schema for message N: cause\<close>
  | FieldSchemaFailed string error      \<comment> \<open>failed to generate schema for field F: cause\<close>
  | OneofSchemaFailed string error      \<comment> \<open>failed to generate schema for oneof O: cause\<close>
  | OneofFieldSchemaFailed string error \<comment> \<open>failed to generate schema for oneof field F: cause\<close>
  | MapKeySchemaFailed error            \<comment> \<open>failed to generate map key schema: cause\<close>
  | MapValueSchemaFailed error          \<comment> \<open>failed to generate map value schema: cause\<close>
  | DeadlineExceeded                    \<comment> \<open>context.DeadlineExceeded\<close>
  | Canceled                            \<comment> \<open>context.Canceled\<close>
  | External string

text \<open>
  A schema is a Go \<open>map[string]interface{}\<close>. An object is an association list with one
  entry per key, written by \<open>AList.update\<close> as the Go map assignment does; a nil slice
  is \<open>JNull\<close>.
\<close>

datatype json =
    JNull
  | JString string
  | JInt int
  | JBool bool
  | JArray "json list"
  | JObject "(string \<times> json) list"

definition strings :: "string list \<Rightarrow> json" where
  "strings xs = JArray (map JString xs)"

text \<open>The placeholder both compilers return for a type that is already being visited.\<close>

definition refSchema :: "string \<Rightarrow> json" where
  "refSchema fullName = JObject [(''$ref'', JString (''#/definitions/'' @ fullName))]"

section \<open>Type descriptors\<close>

text \<open>
  The part of \<open>protoreflect\<close> the compilers read. A descriptor graph may be cyclic, so
  a message-kind field holds the full name of its message type and \<open>resolve\<close> looks
  the name up in the registry of the loaded files; a name the registry does not hold
  resolves to a placeholder without fields, as \<open>protoreflect\<close> does for an unresolvable
  reference. The result of \<open>extractComments\<close> (not among the sources) is an attribute
  of each descriptor, and so are the leading and trailing comments of a field's source
  location.
\<close>

datatype Cardinality = Optional | Required | Repeated

record EnumValueDescriptor =
  EnumValue_Name :: string
  EnumValue_Comments :: string

record EnumDescriptor =
  Enum_Values :: "EnumValueDescriptor list"
  Enum_Comments :: string

record FieldAttrs =
  Field_Name :: string
  Field_Kind :: Kind
  Field_Cardinality :: Cardinality
  Field_HasOptionalKeyword :: bool
  Field_HasPresence :: bool
  Field_Enum :: EnumDescriptor
  Field_Message :: string
  Field_Comments :: string
  Field_LeadingComments :: string
  Field_TrailingComments :: string

text \<open>
  A map field carries the key and value fields of its entry message
  (\<open>MapKey()\<close>, \<open>MapValue()\<close>); every other field carries \<open>None\<close>.
\<close>

datatype FieldDescriptor =
  FieldDescriptor (attrs: FieldAttrs) (MapEntry: "(FieldDescriptor \<times> FieldDescriptor) option")

definition IsMap :: "FieldDescriptor \<Rightarrow> bool" where
  "IsMap field = (MapEntry field \<noteq> None)"

definition IsList :: "FieldDescriptor \<Rightarrow> bool" where
  "IsList field = (Field_Cardinality (attrs field) = Repeated \<and> \<not> IsMap field)"

record OneofDescriptor =
  Oneof_Name :: string
  Oneof_Fields :: "FieldDescriptor list"
  Oneof_Comments :: string

record MessageDescriptor =
  Message_FullName :: string
  Message_Fields :: "FieldDescriptor list"
  Message_Oneofs :: "OneofDescriptor list"
  Message_Comments :: string

type_synonym registry = "MessageDescriptor list"

definition placeholder :: "string \<Rightarrow> MessageDescriptor" where
  "placeholder fullName =
     \<lparr>Message_FullName = fullName, Message_Fields = [], Message_Oneofs = [],
      Message_Comments = []\<rparr>"

definition resolve :: "registry \<Rightarrow> string \<Rightarrow> MessageDescriptor" where
  "resolve reg fullName =
     (case find (\<lambda>m. Message_FullName m = fullName) reg of
        Some m \<Rightarrow> m
      | None \<Rightarrow> placeholder fullName)"

section \<open>The schema extractor of package descriptors\<close>

text \<open>
  \<open>visited\<close> is the Go \<open>map[string]bool\<close> shared by all calls of one compilation: a
  function takes it and returns it as it has left it. The first argument bounds the
  nesting depth of message types: \<open>None\<close> means the bound was reached, and a result is
  \<open>Some\<close> of the Go return values and the visited-set.
\<close>

type_synonym visited = "string set"

text \<open>The enum branch of \<open>extractFieldTypeSchemaInternal\<close> (part\_000, lines 223--250).\<close>

fun enumDescriptions :: "EnumValueDescriptor list \<Rightarrow> (string \<times> json) list \<Rightarrow> (string \<times> json) list" where
  "enumDescriptions [] acc = acc"
| "enumDescriptions (enumValue # vs) acc =
     enumDescriptions vs
       (if EnumValue_Comments enumValue \<noteq> []
        then AList.update (EnumValue_Name enumValue) (JString (EnumValue_Comments enumValue)) acc
        else acc)"

definition extractEnumSchema :: "EnumDescriptor \<Rightarrow> json" where
  "extractEnumSchema enumDesc =
     (let enumValues = map EnumValue_Name (Enum_Values enumDesc);
          descriptions = enumDescriptions (Enum_Values enumDesc) [];
          schema = [(''type'', JString ''string''), (''enum'', strings enumValues)];
          schema = (if Enum_Comments enumDesc \<noteq> []
                    then AList.update ''description'' (JString (Enum_Comments enumDesc)) schema
                    else schema);
          schema = (if descriptions \<noteq> []
                    then AList.update ''enumDescriptions'' (JObject descriptions) schema
                    else schema)
      in JObject schema)"

text \<open>
  The well-known types of \<open>extractFieldTypeSchemaInternal\<close> (part\_000, lines 255--297):
  the schema written by hand for a full name, \<open>None\<close> for every other message type.
\<close>

definition wellKnownSchema :: "string \<Rightarrow> json option" where
  "wellKnownSchema fullName =
     (if fullName = ''google.protobuf.Any'' then
        Some (JObject [(''type'', JString ''object''),
          (''description'', JString ''Any contains an arbitrary serialized protocol buffer message'')])
      else if fullName = ''google.protobuf.Timestamp'' then
        Some (JObject [(''type'', JString ''string''), (''format'', JString ''date-time''),
          (''description'', JString ''RFC 3339 formatted timestamp'')])
      else if fullName = ''google.protobuf.Duration'' then
        Some (JObject [(''type'', JString ''string''), (''format'', JString ''duration''),
          (''description'', JString ''Duration in seconds with up to 9 fractional digits'')])
      else if fullName = ''google.protobuf.Struct'' then
        Some (JObject [(''type'', JString ''object''),
          (''description'', JString ''Arbitrary JSON-like structure'')])
      else if fullName = ''google.protobuf.Value'' then
        Some (JObject [(''description'', JString ''Any JSON value'')])
      else if fullName = ''google.protobuf.ListValue'' then
        Some (JObject [(''type'', JString ''array''),
          (''description'', JString ''Array of JSON values'')])
      else if fullName = ''google.protobuf.StringValue'' \<or> fullName = ''google.protobuf.BytesValue'' then
        Some (JObject [(''type'', JString ''string'')])
      else if fullName = ''google.protobuf.BoolValue'' then
        Some (JObject [(''type'', JString ''boolean'')])
      else if fullName = ''google.protobuf.Int32Value'' \<or> fullName = ''google.protobuf.UInt32Value''
            \<or> fullName = ''google.protobuf.Int64Value'' \<or> fullName = ''google.protobuf.UInt64Value'' then
        Some (JObject [(''type'', JString ''integer'')])
      else if fullName = ''google.protobuf.FloatValue'' \<or> fullName = ''google.protobuf.DoubleValue'' then
        Some (JObject [(''type'', JString ''number'')])
      else None)"

text \<open>
  The functions of the extractor call each other in a cycle through
  \<open>extractMessageSchemaInternal\<close>. The field-level functions therefore take the compiler
  of nested message types as their first argument \<open>self\<close>;
  \<open>extractMessageSchemaInternal\<close> passes itself, with one level of nesting less.
\<close>

type_synonym compiled = "((error + json) \<times> visited) option"

text \<open>\<open>extractFieldTypeSchemaInternal\<close> (part\_000, lines 183--313).\<close>

definition extractFieldTypeSchemaInternal ::
    "(MessageDescriptor \<Rightarrow> visited \<Rightarrow> compiled) \<Rightarrow> registry \<Rightarrow> FieldDescriptor \<Rightarrow> visited \<Rightarrow> compiled" where
  "extractFieldTypeSchemaInternal self reg field visited =
     (case Field_Kind (attrs field) of
        BoolKind \<Rightarrow> Some (Inr (JObject [(''type'', JString ''boolean'')]), visited)
      | Int32Kind \<Rightarrow> Some (Inr (JObject [(''type'', JString ''integer''), (''format'', JString ''int32'')]), visited)
      | Sint32Kind \<Rightarrow> Some (Inr (JObject [(''type'', JString ''integer''), (''format'', JString ''int32'')]), visited)
      | Sfixed32Kind \<Rightarrow> Some (Inr (JObject [(''type'', JString ''integer''), (''format'', JString ''int32'')]), visited)
      | Int64Kind \<Rightarrow> Some (Inr (JObject [(''type'', JString ''integer''), (''format'', JString ''int64'')]), visited)
      | Sint64Kind \<Rightarrow> Some (Inr (JObject [(''type'', JString ''integer''), (''format'', JString ''int64'')]), visited)
      | Sfixed64Kind \<Rightarrow> Some (Inr (JObject [(''type'', JString ''integer''), (''format'', JString ''int64'')]), visited)
      | Uint32Kind \<Rightarrow> Some (Inr (JObject [(''type'', JString ''integer''), (''format'', JString ''uint32''),
                                            (''minimum'', JInt 0)]), visited)
      | Fixed32Kind \<Rightarrow> Some (Inr (JObject [(''type'', JString ''integer''), (''format'', JString ''uint32''),
                                             (''minimum'', JInt 0)]), visited)
      | Uint64Kind \<Rightarrow> Some (Inr (JObject [(''type'', JString ''integer''), (''format'', JString ''uint64''),
                                            (''minimum'', JInt 0)]), visited)
      | Fixed64Kind \<Rightarrow> Some (Inr (JObject [(''type'', JString ''integer''), (''format'', JString ''uint64''),
                                             (''minimum'', JInt 0)]), visited)
      | FloatKind \<Rightarrow> Some (Inr (JObject [(''type'', JString ''number''), (''format'', JString ''float'')]), visited)
      | DoubleKind \<Rightarrow> Some (Inr (JObject [(''type'', JString ''number''), (''format'', JString ''double'')]), visited)
      | StringKind \<Rightarrow> Some (Inr (JObject [(''type'', JString ''string'')]), visited)
      | BytesKind \<Rightarrow> Some (Inr (JObject [(''type'', JString ''string''), (''format'', JString ''byte'')]), visited)
      | EnumKind \<Rightarrow> Some (Inr (extractEnumSchema (Field_Enum (attrs field))), visited)
      | MessageKind \<Rightarrow>
          (let msgDesc = resolve reg (Field_Message (attrs field)) in
           case wellKnownSchema (Message_FullName msgDesc) of
             Some schema \<Rightarrow> Some (Inr schema, visited)
           | None \<Rightarrow>
              (case self msgDesc visited of
                 None \<Rightarrow> None
               | Some (Inl err, visited1) \<Rightarrow>
                   Some (Inl (MessageSchemaFailed (Message_FullName msgDesc) err), visited1)
               | Some (Inr messageSchema, visited1) \<Rightarrow> Some (Inr messageSchema, visited1)))
      | GroupKind \<Rightarrow> Some (Inl (UnsupportedFieldKind GroupKind), visited))"

text \<open>
  \<open>extractFieldSchemaInternal\<close> (part\_000, lines 139--174). The description written
  first stays in the schema of a repeated or map field; a regular field returns the
  schema of its type alone.
\<close>

definition extractFieldSchemaInternal ::
    "(MessageDescriptor \<Rightarrow> visited \<Rightarrow> compiled) \<Rightarrow> registry \<Rightarrow> FieldDescriptor \<Rightarrow> visited \<Rightarrow> compiled" where
  "extractFieldSchemaInternal self reg field visited =
     (let schema = (if Field_Comments (attrs field) \<noteq> []
                    then [(''description'', JString (Field_Comments (attrs field)))] else [])
      in if IsList field then
           (case extractFieldTypeSchemaInternal self reg field visited of
              None \<Rightarrow> None
            | Some (Inl err, visited1) \<Rightarrow> Some (Inl err, visited1)
            | Some (Inr itemSchema, visited1) \<Rightarrow>
                Some (Inr (JObject (AList.update ''items'' itemSchema
                             (AList.update ''type'' (JString ''array'') schema))), visited1))
         else
           (case MapEntry field of
              Some (keyField, valueField) \<Rightarrow>
                (case extractFieldTypeSchemaInternal self reg valueField visited of
                   None \<Rightarrow> None
                 | Some (Inl err, visited1) \<Rightarrow> Some (Inl err, visited1)
                 | Some (Inr valueSchema, visited1) \<Rightarrow>
                     Some (Inr (JObject (AList.update ''additionalProperties'' valueSchema
                                  (AList.update ''type'' (JString ''object'') schema))), visited1))
            | None \<Rightarrow> extractFieldTypeSchemaInternal self reg field visited))"

text \<open>
  The loop over the fields of a message (part\_000, lines 61--82): a field whose schema
  fails is logged and skipped.
\<close>

primrec extractFields ::
    "(MessageDescriptor \<Rightarrow> visited \<Rightarrow> compiled) \<Rightarrow> registry \<Rightarrow> FieldDescriptor list \<Rightarrow> visited
       \<Rightarrow> (string \<times> json) list \<Rightarrow> string list
       \<Rightarrow> ((string \<times> json) list \<times> string list \<times> visited) option" where
  "extractFields self reg [] visited properties required = Some (properties, required, visited)"
| "extractFields self reg (field # rest) visited properties required =
     (case extractFieldSchemaInternal self reg field visited of
        None \<Rightarrow> None
      | Some (Inl err, visited1) \<Rightarrow> extractFields self reg rest visited1 properties required
      | Some (Inr fieldSchema, visited1) \<Rightarrow>
          extractFields self reg rest visited1
            (AList.update (Field_Name (attrs field)) fieldSchema properties)
            (if Field_HasOptionalKeyword (attrs field) \<or> Field_HasPresence (attrs field)
             then required
             else required @ [Field_Name (attrs field)]))"

text \<open>The loop over the fields of one oneof (part\_000, lines 100--120).\<close>

primrec extractOneofFields ::
    "(MessageDescriptor \<Rightarrow> visited \<Rightarrow> compiled) \<Rightarrow> registry \<Rightarrow> FieldDescriptor list \<Rightarrow> visited
       \<Rightarrow> json list \<Rightarrow> (json list \<times> visited) option" where
  "extractOneofFields self reg [] visited options = Some (options, visited)"
| "extractOneofFields self reg (field # rest) visited options =
     (case extractFieldSchemaInternal self reg field visited of
        None \<Rightarrow> None
      | Some (Inl err, visited1) \<Rightarrow> extractOneofFields self reg rest visited1 options
      | Some (Inr fieldSchema, visited1) \<Rightarrow>
          extractOneofFields self reg rest visited1
            (options @ [JObject [(''properties'', JObject [(Field_Name (attrs field), fieldSchema)]),
                                 (''required'', strings [Field_Name (attrs field)])]]))"

text \<open>The loop over the oneofs of a message (part\_000, lines 85--123).\<close>

primrec extractOneofs ::
    "(MessageDescriptor \<Rightarrow> visited \<Rightarrow> compiled) \<Rightarrow> registry \<Rightarrow> OneofDescriptor list \<Rightarrow> visited
       \<Rightarrow> (string \<times> json) list \<Rightarrow> ((string \<times> json) list \<times> visited) option" where
  "extractOneofs self reg [] visited properties = Some (properties, visited)"
| "extractOneofs self reg (oneof # rest) visited properties =
     (case extractOneofFields self reg (Oneof_Fields oneof) visited [] of
        None \<Rightarrow> None
      | Some (options, visited1) \<Rightarrow>
         (let oneofSchema = [(''type'', JString ''object''), (''oneOf'', JArray options)];
              oneofSchema = (if Oneof_Comments oneof \<noteq> []
                             then AList.update ''description'' (JString (Oneof_Comments oneof)) oneofSchema
                             else oneofSchema)
          in extractOneofs self reg rest visited1
               (AList.update (Oneof_Name oneof) (JObject oneofSchema) properties)))"

text \<open>
  \<open>extractMessageSchemaInternal\<close> (part\_000, lines 33--130). The deferred
  \<open>delete(visited, fullName)\<close> runs on the way out of every path after the mark.
\<close>

primrec extractMessageSchemaInternal ::
    "nat \<Rightarrow> registry \<Rightarrow> MessageDescriptor \<Rightarrow> visited \<Rightarrow> compiled" where
  "extractMessageSchemaInternal 0 reg msgDesc visited = None"
| "extractMessageSchemaInternal (Suc n) reg msgDesc visited =
     (let fullName = Message_FullName msgDesc in
      if fullName \<in> visited then Some (Inr (refSchema fullName), visited)
      else
        (case extractFields (extractMessageSchemaInternal n reg) reg (Message_Fields msgDesc)
                (insert fullName visited) [] [] of
           None \<Rightarrow> None
         | Some (properties, required, visited1) \<Rightarrow>
            (case extractOneofs (extractMessageSchemaInternal n reg) reg (Message_Oneofs msgDesc)
                    visited1 properties of
               None \<Rightarrow> None
             | Some (properties, visited2) \<Rightarrow>
                (let schema = [(''type'', JString ''object''), (''properties'', JObject properties)];
                     schema = (if Message_Comments msgDesc \<noteq> []
                               then AList.update ''description'' (JString (Message_Comments msgDesc)) schema
                               else schema);
                     schema = (if required \<noteq> []
                               then AList.update ''required'' (strings required) schema
                               else schema)
                 in Some (Inr (JObject schema), visited2 - {fullName})))))"

text \<open>\<open>ExtractMessageSchema\<close> (part\_000, lines 27--30) starts from an empty visited-set.\<close>

definition ExtractMessageSchema :: "nat \<Rightarrow> registry \<Rightarrow> MessageDescriptor \<Rightarrow> (error + json) option" where
  "ExtractMessageSchema n reg msgDesc =
     map_option fst (extractMessageSchemaInternal n reg msgDesc {})"

section \<open>The schema builder of package tools\<close>

text \<open>
  The \<open>Builder\<close> keeps a cache of compiled schemas by full name
  (\<open>schemaCache map[string]interface{}\<close>); its functions take and return the visited-set
  and the cache. In Go the cache holds each schema map by reference. The model holds
  values; it agrees with the code on every branch taken (no branch reads the content of
  a schema) and on the schema returned by a compilation that starts from an empty cache.
\<close>

type_synonym schemaCache = "(string \<times> json) list"

type_synonym generated = "((error + json) \<times> visited \<times> schemaCache) option"

text \<open>
  \<open>strings.TrimSpace\<close>, on the ASCII white space (tab, line feed, vertical tab, form
  feed, carriage return, space).
\<close>

definition isSpace :: "char \<Rightarrow> bool" where
  "isSpace c = (c = CHR 0x09 \<or> c = CHR 0x0A \<or> c = CHR 0x0B \<or> c = CHR 0x0C \<or> c = CHR 0x0D \<or> c = CHR '' '')"

definition TrimSpace :: "string \<Rightarrow> string" where
  "TrimSpace s = rev (dropWhile isSpace (rev (dropWhile isSpace s)))"

text \<open>\<open>Builder.GetFieldDescription\<close> (part\_000, lines 1129--1155).\<close>

definition GetFieldDescription :: "FieldDescriptor \<Rightarrow> string" where
  "GetFieldDescription field =
     (let leading = Field_LeadingComments (attrs field);
          trailing = Field_TrailingComments (attrs field);
          comments = (if leading \<noteq> [] then leading else []);
          comments = (if trailing \<noteq> []
                      then (if comments \<noteq> [] then comments @ [CHR 0x0A] @ trailing else trailing)
                      else comments)
      in if comments \<noteq> [] then TrimSpace comments
         else ''Field '' @ Field_Name (attrs field))"

text \<open>
  \<open>Builder.generateEnumSchema\<close> (part\_000, lines 1076--1089); \<open>enumValues\<close> stays a nil
  slice when the enum has no value.
\<close>

definition generateEnumSchema :: "EnumDescriptor \<Rightarrow> json" where
  "generateEnumSchema enum =
     (let enumValues = (if Enum_Values enum = [] then JNull
                        else JArray (map (\<lambda>v. JString (EnumValue_Name v)) (Enum_Values enum)))
      in JObject [(''type'', JString ''string''), (''enum'', enumValues)])"

text \<open>
  The \<open>switch\<close> on the kind that opens \<open>Builder.generateFieldSchema\<close>
  (part\_000, lines 992--1034); \<open>self\<close> is \<open>generateMessageSchema\<close>.
\<close>

definition generateBaseSchema ::
    "(MessageDescriptor option \<Rightarrow> visited \<Rightarrow> schemaCache \<Rightarrow> generated) \<Rightarrow> registry \<Rightarrow> FieldAttrs
       \<Rightarrow> visited \<Rightarrow> schemaCache \<Rightarrow> generated" where
  "generateBaseSchema self reg a visited cache =
     (case Field_Kind a of
        BoolKind \<Rightarrow> Some (Inr (JObject [(''type'', JString ''boolean'')]), visited, cache)
      | Int32Kind \<Rightarrow> Some (Inr (JObject [(''type'', JString ''integer'')]), visited, cache)
      | Int64Kind \<Rightarrow> Some (Inr (JObject [(''type'', JString ''integer'')]), visited, cache)
      | Sint32Kind \<Rightarrow> Some (Inr (JObject [(''type'', JString ''integer'')]), visited, cache)
      | Sint64Kind \<Rightarrow> Some (Inr (JObject [(''type'', JString ''integer'')]), visited, cache)
      | Sfixed32Kind \<Rightarrow> Some (Inr (JObject [(''type'', JString ''integer'')]), visited, cache)
      | Sfixed64Kind \<Rightarrow> Some (Inr (JObject [(''type'', JString ''integer'')]), visited, cache)
      | Uint32Kind \<Rightarrow> Some (Inr (JObject [(''type'', JString ''integer''), (''minimum'', JInt 0)]), visited, cache)
      | Uint64Kind \<Rightarrow> Some (Inr (JObject [(''type'', JString ''integer''), (''minimum'', JInt 0)]), visited, cache)
      | Fixed32Kind \<Rightarrow> Some (Inr (JObject [(''type'', JString ''integer''), (''minimum'', JInt 0)]), visited, cache)
      | Fixed64Kind \<Rightarrow> Some (Inr (JObject [(''type'', JString ''integer''), (''minimum'', JInt 0)]), visited, cache)
      | FloatKind \<Rightarrow> Some (Inr (JObject [(''type'', JString ''number'')]), visited, cache)
      | DoubleKind \<Rightarrow> Some (Inr (JObject [(''type'', JString ''number'')]), visited, cache)
      | StringKind \<Rightarrow> Some (Inr (JObject [(''type'', JString ''string'')]), visited, cache)
      | BytesKind \<Rightarrow> Some (Inr (JObject [(''type'', JString ''string''), (''format'', JString ''byte'')]), visited, cache)
      | EnumKind \<Rightarrow> Some (Inr (generateEnumSchema (Field_Enum a)), visited, cache)
      | MessageKind \<Rightarrow> self (Some (resolve reg (Field_Message a))) visited cache
      | GroupKind \<Rightarrow> Some (Inl (UnsupportedFieldKind GroupKind), visited, cache))"

text \<open>
  \<open>Builder.generateFieldSchema\<close> (part\_000, lines 988--1073). The description is
  written into the base schema itself. For a message-kind field that schema is the map
  the cache holds (unless it is the fresh \<open>$ref\<close> placeholder of a visited type), so the
  cache entry receives the description too.
\<close>

fun generateFieldSchema ::
    "(MessageDescriptor option \<Rightarrow> visited \<Rightarrow> schemaCache \<Rightarrow> generated) \<Rightarrow> registry \<Rightarrow> FieldDescriptor
       \<Rightarrow> visited \<Rightarrow> schemaCache \<Rightarrow> generated" where
  "generateFieldSchema self reg (FieldDescriptor a entry) visited cache =
     (case generateBaseSchema self reg a visited cache of
        None \<Rightarrow> None
      | Some (Inl err, visited1, cache1) \<Rightarrow> Some (Inl err, visited1, cache1)
      | Some (Inr baseSchema, visited1, cache1) \<Rightarrow>
          if IsList (FieldDescriptor a entry) then
            Some (Inr (JObject [(''type'', JString ''array''), (''items'', baseSchema)]), visited1, cache1)
          else
            (case entry of
               Some (keyField, valueField) \<Rightarrow>
                 (case generateFieldSchema self reg keyField visited1 cache1 of
                    None \<Rightarrow> None
                  | Some (Inl err, visited2, cache2) \<Rightarrow> Some (Inl (MapKeySchemaFailed err), visited2, cache2)
                  | Some (Inr keySchema, visited2, cache2) \<Rightarrow>
                     (case generateFieldSchema self reg valueField visited2 cache2 of
                        None \<Rightarrow> None
                      | Some (Inl err, visited3, cache3) \<Rightarrow>
                          Some (Inl (MapValueSchemaFailed err), visited3, cache3)
                      | Some (Inr valueSchema, visited3, cache3) \<Rightarrow>
                          Some (Inr (JObject [(''type'', JString ''object''),
                                              (''patternProperties'', JObject [(''.*'', valueSchema)]),
                                              (''additionalProperties'', JBool False)]),
                                visited3, cache3)))
             | None \<Rightarrow>
                 (case baseSchema of
                    JObject schema \<Rightarrow>
                      (let description = GetFieldDescription (FieldDescriptor a entry) in
                       if description \<noteq> [] then
                         (let described = JObject (AList.update ''description'' (JString description) schema)
                          in Some (Inr described, visited1,
                                   if Field_Kind a = MessageKind \<and> Field_Message a \<notin> visited
                                   then AList.update (Field_Message a) described cache1
                                   else cache1))
                       else Some (Inr baseSchema, visited1, cache1))
                  | _ \<Rightarrow> Some (Inr baseSchema, visited1, cache1))))"

text \<open>
  The loop over the fields of a message in \<open>generateMessageSchema\<close>
  (part\_000, lines 945--960): the first failing field fails the message.
\<close>

primrec generateFields ::
    "(MessageDescriptor option \<Rightarrow> visited \<Rightarrow> schemaCache \<Rightarrow> generated) \<Rightarrow> registry \<Rightarrow> FieldDescriptor list
       \<Rightarrow> visited \<Rightarrow> schemaCache \<Rightarrow> (string \<times> json) list \<Rightarrow> string list
       \<Rightarrow> ((error + (string \<times> json) list \<times> string list) \<times> visited \<times> schemaCache) option" where
  "generateFields self reg [] visited cache properties required =
     Some (Inr (properties, required), visited, cache)"
| "generateFields self reg (field # rest) visited cache properties required =
     (case generateFieldSchema self reg field visited cache of
        None \<Rightarrow> None
      | Some (Inl err, visited1, cache1) \<Rightarrow>
          Some (Inl (FieldSchemaFailed (Field_Name (attrs field)) err), visited1, cache1)
      | Some (Inr fieldSchema, visited1, cache1) \<Rightarrow>
          generateFields self reg rest visited1 cache1
            (AList.update (Field_Name (attrs field)) fieldSchema properties)
            (if \<not> Field_HasOptionalKeyword (attrs field) \<and> Field_Cardinality (attrs field) = Required
             then required @ [Field_Name (attrs field)]
             else required))"

text \<open>The loop of \<open>Builder.generateOneofSchema\<close> (part\_000, lines 1100--1121).\<close>

primrec generateOneofOptions ::
    "(MessageDescriptor option \<Rightarrow> visited \<Rightarrow> schemaCache \<Rightarrow> generated) \<Rightarrow> registry \<Rightarrow> FieldDescriptor list
       \<Rightarrow> visited \<Rightarrow> schemaCache \<Rightarrow> json list
       \<Rightarrow> ((error + json list) \<times> visited \<times> schemaCache) option" where
  "generateOneofOptions self reg [] visited cache oneOfOptions = Some (Inr oneOfOptions, visited, cache)"
| "generateOneofOptions self reg (field # rest) visited cache oneOfOptions =
     (case generateFieldSchema self reg field visited cache of
        None \<Rightarrow> None
      | Some (Inl err, visited1, cache1) \<Rightarrow>
          Some (Inl (OneofFieldSchemaFailed (Field_Name (attrs field)) err), visited1, cache1)
      | Some (Inr fieldSchema, visited1, cache1) \<Rightarrow>
          generateOneofOptions self reg rest visited1 cache1
            (oneOfOptions @
               [JObject [(''type'', JString ''object''),
                         (''properties'', JObject [(Field_Name (attrs field), fieldSchema)]),
                         (''required'', strings [Field_Name (attrs field)])]]))"

text \<open>
  \<open>Builder.generateOneofSchema\<close> (part\_000, lines 1092--1126): a oneof without fields
  yields nil.
\<close>

definition generateOneofSchema ::
    "(MessageDescriptor option \<Rightarrow> visited \<Rightarrow> schemaCache \<Rightarrow> generated) \<Rightarrow> registry \<Rightarrow> OneofDescriptor
       \<Rightarrow> visited \<Rightarrow> schemaCache \<Rightarrow> generated" where
  "generateOneofSchema self reg oneof visited cache =
     (if Oneof_Fields oneof = [] then Some (Inr JNull, visited, cache)
      else
        (case generateOneofOptions self reg (Oneof_Fields oneof) visited cache [] of
           None \<Rightarrow> None
         | Some (Inl err, visited1, cache1) \<Rightarrow> Some (Inl err, visited1, cache1)
         | Some (Inr oneOfOptions, visited1, cache1) \<Rightarrow>
             Some (Inr (JObject [(''oneOf'', JArray oneOfOptions)]), visited1, cache1)))"

text \<open>The loop over the oneofs in \<open>generateMessageSchema\<close> (part\_000, lines 963--975).\<close>

primrec generateOneofs ::
    "(MessageDescriptor option \<Rightarrow> visited \<Rightarrow> schemaCache \<Rightarrow> generated) \<Rightarrow> registry \<Rightarrow> OneofDescriptor list
       \<Rightarrow> visited \<Rightarrow> schemaCache \<Rightarrow> (string \<times> json) list
       \<Rightarrow> ((error + (string \<times> json) list) \<times> visited \<times> schemaCache) option" where
  "generateOneofs self reg [] visited cache properties = Some (Inr properties, visited, cache)"
| "generateOneofs self reg (oneof # rest) visited cache properties =
     (case generateOneofSchema self reg oneof visited cache of
        None \<Rightarrow> None
      | Some (Inl err, visited1, cache1) \<Rightarrow>
          Some (Inl (OneofSchemaFailed (Oneof_Name oneof) err), visited1, cache1)
      | Some (Inr oneofSchema, visited1, cache1) \<Rightarrow>
          generateOneofs self reg rest visited1 cache1
            (if oneofSchema \<noteq> JNull
             then AList.update (Oneof_Name oneof) oneofSchema properties
             else properties))"

text \<open>
  \<open>Builder.generateMessageSchema\<close> (part\_000, lines 907--985). The name is marked and
  never unmarked; the cache is read after the mark and written before the return.
\<close>

primrec generateMessageSchema ::
    "nat \<Rightarrow> registry \<Rightarrow> MessageDescriptor option \<Rightarrow> visited \<Rightarrow> schemaCache \<Rightarrow> generated" where
  "generateMessageSchema 0 reg desc visited cache = None"
| "generateMessageSchema (Suc n) reg desc visited cache =
     (case desc of
        None \<Rightarrow> Some (Inl NilMessageDescriptor, visited, cache)
      | Some d \<Rightarrow>
         (let fullName = Message_FullName d in
          if fullName \<in> visited then Some (Inr (refSchema fullName), visited, cache)
          else
            (case map_of cache fullName of
               Some cached \<Rightarrow> Some (Inr cached, insert fullName visited, cache)
             | None \<Rightarrow>
                (case generateFields (generateMessageSchema n reg) reg (Message_Fields d)
                        (insert fullName visited) cache [] [] of
                   None \<Rightarrow> None
                 | Some (Inl err, visited1, cache1) \<Rightarrow> Some (Inl err, visited1, cache1)
                 | Some (Inr (properties, required), visited1, cache1) \<Rightarrow>
                    (case generateOneofs (generateMessageSchema n reg) reg (Message_Oneofs d)
                            visited1 cache1 properties of
                       None \<Rightarrow> None
                     | Some (Inl err, visited2, cache2) \<Rightarrow> Some (Inl err, visited2, cache2)
                     | Some (Inr properties, visited2, cache2) \<Rightarrow>
                        (let schema = [(''type'', JString ''object''), (''properties'', JObject properties)];
                             schema = (if required \<noteq> []
                                       then AList.update ''required'' (strings required) schema
                                       else schema)
                         in Some (Inr (JObject schema), visited2,
                                  AList.update fullName (JObject schema) cache2)))))))"



section \<open>The service discoverer of package grpc\<close>

subsection \<open>Catalog, heap and contexts\<close>

text \<open>
  \<open>MethodInfo\<close> and \<open>ServiceInfo\<close> (reflection.go, lines 45--62). \<open>Methods\<close> is a Go
  slice: a reference to a backing array and a length. Copying a \<open>ServiceInfo\<close> copies
  the reference, so the backing arrays live in a heap. The \<open>FileDescriptor\<close> pointer of
  \<open>ServiceInfo\<close> is read by none of the modelled functions and is left out.
\<close>

record MethodInfo =
  Name :: string
  FullName :: string
  Description :: string
  InputType :: string
  OutputType :: string
  InputDescriptor :: "MessageDescriptor option"
  OutputDescriptor :: "MessageDescriptor option"
  IsClientStreaming :: bool
  IsServerStreaming :: bool

type_synonym addr = nat

record MethodSlice =
  sliceArray :: addr
  sliceLen :: nat

record ServiceInfo =
  ServiceName :: string
  Methods :: MethodSlice

text \<open>
  A \<open>context.Context\<close>: its deadline, the time at which its owner cancels it (if ever),
  and the outgoing metadata in the order of appending. Times are nanoseconds.
\<close>

record ctx =
  deadline :: "nat option"
  canceledAt :: "nat option"
  outgoingMD :: "(string \<times> string) list"

definition Second :: nat where
  "Second = 1000000000"

text \<open>The time from which \<open>ctx.Done()\<close> is closed, and \<open>ctx.Err()\<close> from then on.\<close>

definition doneAt :: "ctx \<Rightarrow> nat option" where
  "doneAt c =
     (case (deadline c, canceledAt c) of
        (None, None) \<Rightarrow> None
      | (Some t, None) \<Rightarrow> Some t
      | (None, Some t) \<Rightarrow> Some t
      | (Some t, Some u) \<Rightarrow> Some (min t u))"

definition ctxErr :: "ctx \<Rightarrow> error" where
  "ctxErr c =
     (case (deadline c, canceledAt c) of
        (Some t, Some u) \<Rightarrow> if u < t then Canceled else DeadlineExceeded
      | (None, Some u) \<Rightarrow> Canceled
      | _ \<Rightarrow> DeadlineExceeded)"

text \<open>\<open>metadata.AppendToOutgoingContext(ctx, key, value)\<close>.\<close>

definition AppendToOutgoingContext :: "ctx \<Rightarrow> string \<Rightarrow> string \<Rightarrow> ctx" where
  "AppendToOutgoingContext c k v = c\<lparr>outgoingMD := outgoingMD c @ [(k, v)]\<rparr>"

subsection \<open>The world outside the discoverer\<close>

text \<open>
  The connection manager, the reflection client and the descriptor loader are reached
  through interfaces. Every call on them is recorded as an event, with the logged errors
  and the waits of \<open>time.After\<close>. What a call returns and how long it takes is given by
  an environment, which may look at everything that has happened so far.
\<close>

type_synonym conn = nat

datatype event =
    CM_Connect ctx
  | CM_Reconnect ctx
  | CM_GetConnection
  | CM_Close
  | RC_HealthCheck conn ctx
  | RC_DiscoverServices conn ctx
  | RC_InvokeMethod conn ctx MethodInfo string
  | RC_Close conn
  | Loader_LoadFromFile string
  | Loader_BuildRegistry
  | Loader_ExtractServiceInfo
  | Logged error
  | Slept nat

record world =
  clock :: nat
  events :: "event list"
  heap :: "addr \<Rightarrow> MethodInfo list"
  nextAddr :: addr

text \<open>
  \<open>EnhancedServiceInfo\<close> and \<open>EnhancedMethodInfo\<close> of package \<open>descriptors\<close>, as
  \<open>discoverFromFileDescriptor\<close> reads them.
\<close>

record EnhancedMethodInfo =
  Enhanced_Name :: string
  Enhanced_FullName :: string
  Enhanced_Description :: string
  Enhanced_InputType :: string
  Enhanced_OutputType :: string
  Enhanced_InputDescriptor :: "MessageDescriptor option"
  Enhanced_OutputDescriptor :: "MessageDescriptor option"
  Enhanced_IsClientStreaming :: bool
  Enhanced_IsServerStreaming :: bool

record EnhancedServiceInfo =
  EnhancedService_Name :: string
  EnhancedService_Methods :: "EnhancedMethodInfo list"

record env =
  cmConnect :: "world \<Rightarrow> ctx \<Rightarrow> error option \<times> nat"
  cmReconnect :: "world \<Rightarrow> ctx \<Rightarrow> error option \<times> nat"
  cmGetConnection :: "world \<Rightarrow> conn option"
  cmClose :: "world \<Rightarrow> error option"
  rcHealthCheck :: "world \<Rightarrow> conn \<Rightarrow> ctx \<Rightarrow> error option \<times> nat"
  rcDiscoverServices :: "world \<Rightarrow> conn \<Rightarrow> ctx \<Rightarrow> (error + (string \<times> MethodInfo list) list) \<times> nat"
  rcInvokeMethod :: "world \<Rightarrow> conn \<Rightarrow> ctx \<Rightarrow> MethodInfo \<Rightarrow> string \<Rightarrow> (error + string) \<times> nat"
  rcClose :: "world \<Rightarrow> conn \<Rightarrow> error option"
  loadFromFile :: "world \<Rightarrow> string \<Rightarrow> error option \<times> nat"
  buildRegistry :: "world \<Rightarrow> error option"
  extractServiceInfo :: "world \<Rightarrow> error + EnhancedServiceInfo list"

definition perform :: "event \<Rightarrow> nat \<Rightarrow> world \<Rightarrow> world" where
  "perform ev t w = w\<lparr>clock := clock w + t, events := events w @ [ev]\<rparr>"

text \<open>A new backing array holding \<open>xs\<close>, and the slice of all of it.\<close>

definition alloc :: "MethodInfo list \<Rightarrow> world \<Rightarrow> MethodSlice \<times> world" where
  "alloc xs w =
     (\<lparr>sliceArray = nextAddr w, sliceLen = length xs\<rparr>,
      w\<lparr>heap := (heap w)(nextAddr w := xs), nextAddr := Suc (nextAddr w)\<rparr>)"

definition sliceElems :: "world \<Rightarrow> MethodSlice \<Rightarrow> MethodInfo list" where
  "sliceElems w s = take (sliceLen s) (heap w (sliceArray s))"

text \<open>
  The write \<open>s[i] = m\<close> that Go allows whoever holds the slice \<open>s\<close>; an index out of
  range panics (\<open>None\<close>).
\<close>

definition sliceStore :: "MethodSlice \<Rightarrow> nat \<Rightarrow> MethodInfo \<Rightarrow> world \<Rightarrow> world option" where
  "sliceStore s i m w =
     (if i < sliceLen s
      then Some (w\<lparr>heap := (heap w)(sliceArray s := (heap w (sliceArray s))[i := m])\<rparr>)
      else None)"

subsection \<open>The discoverer\<close>

record DescriptorSetConfig =
  Enabled :: bool
  Path :: string

text \<open>
  The fields of \<open>serviceDiscoverer\<close> (part\_003, lines 17--31) that change or are read:
  \<open>reflectionClient\<close> is nil or the client made for a connection; \<open>services\<close> is the
  catalog, a Go map, as an association list with one entry per name.
\<close>

record serviceDiscoverer =
  reflectionClient :: "conn option"
  services :: "(string \<times> ServiceInfo) list"
  descriptorConfig :: DescriptorSetConfig
  reconnectInterval :: nat
  maxReconnectAttempts :: int

text \<open>\<open>NewServiceDiscoverer\<close> (part\_003, lines 34--58).\<close>

definition NewServiceDiscoverer :: "DescriptorSetConfig \<Rightarrow> serviceDiscoverer" where
  "NewServiceDiscoverer config =
     \<lparr>reflectionClient = None, services = [], descriptorConfig = config,
      reconnectInterval = 5 * Second, maxReconnectAttempts = 5\<rparr>"

text \<open>\<open>Connect\<close> (part\_003, lines 61--84).\<close>

definition Connect :: "env \<Rightarrow> ctx \<Rightarrow> serviceDiscoverer \<Rightarrow> world \<Rightarrow> error option \<times> serviceDiscoverer \<times> world" where
  "Connect e c d w =
     (case cmConnect e w c of
        (Some err, t) \<Rightarrow> (Some (ConnectFailed err), d, perform (CM_Connect c) t w)
      | (None, t) \<Rightarrow>
         (let w1 = perform (CM_Connect c) t w;
              w2 = perform CM_GetConnection 0 w1
          in case cmGetConnection e w1 of
               None \<Rightarrow> (Some NilConnection, d, w2)
             | Some cn \<Rightarrow>
                (let d1 = d\<lparr>reflectionClient := Some cn\<rparr> in
                 case rcHealthCheck e w2 cn c of
                   (Some err, t) \<Rightarrow> (Some (HealthCheckFailed err), d1, perform (RC_HealthCheck cn c) t w2)
                 | (None, t) \<Rightarrow> (None, d1, perform (RC_HealthCheck cn c) t w2))))"

text \<open>
  The conversion loop of \<open>discoverFromFileDescriptor\<close> (part\_003, lines 137--158):
  each service gets a new \<open>Methods\<close> array.
\<close>

definition toMethodInfo :: "EnhancedMethodInfo \<Rightarrow> MethodInfo" where
  "toMethodInfo m =
     \<lparr>Name = Enhanced_Name m, FullName = Enhanced_FullName m,
      Description = Enhanced_Description m,
      InputType = Enhanced_InputType m, OutputType = Enhanced_OutputType m,
      InputDescriptor = Enhanced_InputDescriptor m,
      OutputDescriptor = Enhanced_OutputDescriptor m,
      IsClientStreaming = Enhanced_IsClientStreaming m,
      IsServerStreaming = Enhanced_IsServerStreaming m\<rparr>"

primrec convertServices ::
    "EnhancedServiceInfo list \<Rightarrow> (string \<times> ServiceInfo) list \<Rightarrow> world
       \<Rightarrow> (string \<times> ServiceInfo) list \<times> world" where
  "convertServices [] catalog w = (catalog, w)"
| "convertServices (enhancedService # rest) catalog w =
     (case alloc (map toMethodInfo (EnhancedService_Methods enhancedService)) w of
        (methods, w1) \<Rightarrow>
          convertServices rest
            (AList.update (EnhancedService_Name enhancedService)
               \<lparr>ServiceName = EnhancedService_Name enhancedService, Methods = methods\<rparr> catalog)
            w1)"

text \<open>
  \<open>discoverFromFileDescriptor\<close> (part\_003, lines 110--162): the catalog is emptied
  before the services are extracted.
\<close>

definition discoverFromFileDescriptor ::
    "env \<Rightarrow> serviceDiscoverer \<Rightarrow> world \<Rightarrow> error option \<times> serviceDiscoverer \<times> world" where
  "discoverFromFileDescriptor e d w =
     (case loadFromFile e w (Path (descriptorConfig d)) of
        (Some err, t) \<Rightarrow>
          (Some (LoadDescriptorSetFailed err), d,
           perform (Loader_LoadFromFile (Path (descriptorConfig d))) t w)
      | (None, t) \<Rightarrow>
         (let w1 = perform (Loader_LoadFromFile (Path (descriptorConfig d))) t w;
              w2 = perform Loader_BuildRegistry 0 w1
          in case buildRegistry e w1 of
               Some err \<Rightarrow> (Some (BuildRegistryFailed err), d, w2)
             | None \<Rightarrow>
                (let d1 = d\<lparr>services := []\<rparr>;
                     w3 = perform Loader_ExtractServiceInfo 0 w2
                 in case extractServiceInfo e w2 of
                      Inl err \<Rightarrow> (Some (ExtractServiceInfoFailed err), d1, w3)
                    | Inr enhancedServices \<Rightarrow>
                       (case convertServices enhancedServices [] w3 of
                          (catalog, w4) \<Rightarrow> (None, d1\<lparr>services := catalog\<rparr>, w4)))))"

text \<open>
  \<open>discoverFromReflection\<close> (part\_003, lines 165--182). The reflection client returns
  services whose \<open>Methods\<close> it has just built; the arrays are allocated here on its
  behalf.
\<close>

primrec storeServices ::
    "(string \<times> MethodInfo list) list \<Rightarrow> (string \<times> ServiceInfo) list \<Rightarrow> world
       \<Rightarrow> (string \<times> ServiceInfo) list \<times> world" where
  "storeServices [] catalog w = (catalog, w)"
| "storeServices (service # rest) catalog w =
     (case alloc (snd service) w of
        (methods, w1) \<Rightarrow>
          storeServices rest
            (AList.update (fst service) \<lparr>ServiceName = fst service, Methods = methods\<rparr> catalog)
            w1)"

definition discoverFromReflection ::
    "env \<Rightarrow> ctx \<Rightarrow> conn \<Rightarrow> serviceDiscoverer \<Rightarrow> world \<Rightarrow> error option \<times> serviceDiscoverer \<times> world" where
  "discoverFromReflection e c cn d w =
     (case rcDiscoverServices e w cn c of
        (Inl err, t) \<Rightarrow>
          (Some (ReflectionDiscoveryFailed err), d, perform (RC_DiscoverServices cn c) t w)
      | (Inr found, t) \<Rightarrow>
         (case storeServices found [] (perform (RC_DiscoverServices cn c) t w) of
            (catalog, w1) \<Rightarrow> (None, d\<lparr>services := catalog\<rparr>, w1)))"

text \<open>\<open>DiscoverServices\<close> (part\_003, lines 87--107).\<close>

definition DiscoverServices ::
    "env \<Rightarrow> ctx \<Rightarrow> serviceDiscoverer \<Rightarrow> world \<Rightarrow> error option \<times> serviceDiscoverer \<times> world" where
  "DiscoverServices e c d w =
     (case reflectionClient d of
        None \<Rightarrow> (Some NotConnected, d, w)
      | Some cn \<Rightarrow>
          if Enabled (descriptorConfig d) \<and> Path (descriptorConfig d) \<noteq> [] then
            (case discoverFromFileDescriptor e d w of
               (None, d1, w1) \<Rightarrow> (None, d1, w1)
             | (Some err, d1, w1) \<Rightarrow> discoverFromReflection e c cn d1 (perform (Logged err) 0 w1))
          else discoverFromReflection e c cn d w)"

text \<open>\<open>GetServices\<close> (part\_003, lines 185--196): a new map with the same entries.\<close>

definition GetServices :: "serviceDiscoverer \<Rightarrow> (string \<times> ServiceInfo) list" where
  "GetServices d = fold (\<lambda>(name, service) copy. AList.update name service copy) (services d) []"

text \<open>\<open>GetService\<close> (part\_003, lines 199--205).\<close>

definition GetService :: "serviceDiscoverer \<Rightarrow> string \<Rightarrow> ServiceInfo option" where
  "GetService d name = map_of (services d) name"

text \<open>\<open>GetMethod\<close> (part\_003, lines 208--221): the first method of that name.\<close>

definition GetMethod :: "world \<Rightarrow> serviceDiscoverer \<Rightarrow> string \<Rightarrow> string \<Rightarrow> MethodInfo option" where
  "GetMethod w d serviceName methodName =
     (case GetService d serviceName of
        None \<Rightarrow> None
      | Some service \<Rightarrow> find (\<lambda>m. Name m = methodName) (sliceElems w (Methods service)))"

text \<open>\<open>InvokeMethod\<close> (part\_003, lines 224--252).\<close>

definition InvokeMethod ::
    "env \<Rightarrow> ctx \<Rightarrow> string \<Rightarrow> string \<Rightarrow> string \<Rightarrow> serviceDiscoverer \<Rightarrow> world \<Rightarrow> (error + string) \<times> world" where
  "InvokeMethod e c serviceName methodName inputJSON d w =
     (case reflectionClient d of
        None \<Rightarrow> (Inl NotConnected, w)
      | Some cn \<Rightarrow>
         (case GetMethod w d serviceName methodName of
            None \<Rightarrow> (Inl (MethodNotFound serviceName methodName), w)
          | Some m \<Rightarrow>
              if IsClientStreaming m \<or> IsServerStreaming m then (Inl StreamingNotSupported, w)
              else
                (case rcInvokeMethod e w cn c m inputJSON of
                   (Inl err, t) \<Rightarrow> (Inl (InvokeFailed err), perform (RC_InvokeMethod cn c m inputJSON) t w)
                 | (Inr result, t) \<Rightarrow> (Inr result, perform (RC_InvokeMethod cn c m inputJSON) t w))))"

text \<open>
  \<open>InvokeMethodWithHeaders\<close> (part\_003, lines 255--273); \<open>headers\<close> is a Go map, given
  in the order the loop visits it.
\<close>

definition InvokeMethodWithHeaders ::
    "env \<Rightarrow> ctx \<Rightarrow> (string \<times> string) list \<Rightarrow> string \<Rightarrow> string \<Rightarrow> string \<Rightarrow> serviceDiscoverer \<Rightarrow> world
       \<Rightarrow> (error + string) \<times> world" where
  "InvokeMethodWithHeaders e c headers serviceName methodName inputJSON d w =
     (case reflectionClient d of
        None \<Rightarrow> (Inl NotConnected, w)
      | Some cn \<Rightarrow>
         (let c1 = fold (\<lambda>(k, v) c. AppendToOutgoingContext c k v) headers c
          in InvokeMethod e c1 serviceName methodName inputJSON d w))"

text \<open>
  The \<open>select\<close> of \<open>Reconnect\<close> (part\_003, lines 286--290): return \<open>ctx.Err()\<close> as soon
  as the context is done, or go on after the interval. When both become ready at the
  same instant Go picks one of them; the model takes the context.
\<close>

definition waitInterval :: "ctx \<Rightarrow> nat \<Rightarrow> world \<Rightarrow> error option \<times> world" where
  "waitInterval c interval w =
     (case doneAt c of
        None \<Rightarrow> (None, perform (Slept interval) interval w)
      | Some t \<Rightarrow>
          if t \<le> clock w then (Some (ctxErr c), w)
          else if t \<le> clock w + interval
          then (Some (ctxErr c), perform (Slept (t - clock w)) (t - clock w) w)
          else (None, perform (Slept interval) interval w))"

text \<open>
  The loop of \<open>Reconnect\<close> (part\_003, lines 280--321): \<open>k\<close> iterations are left, \<open>i\<close> is
  the loop counter.
\<close>

primrec reconnectLoop ::
    "nat \<Rightarrow> env \<Rightarrow> ctx \<Rightarrow> int \<Rightarrow> error option \<Rightarrow> serviceDiscoverer \<Rightarrow> world
       \<Rightarrow> error option \<times> serviceDiscoverer \<times> world" where
  "reconnectLoop 0 e c i lastErr d w =
     (Some (ReconnectExhausted (maxReconnectAttempts d) lastErr), d, w)"
| "reconnectLoop (Suc k) e c i lastErr d w =
     (case (if i > 0 then waitInterval c (reconnectInterval d) w else (None, w)) of
        (Some err, w0) \<Rightarrow> (Some err, d, w0)
      | (None, w0) \<Rightarrow>
         (case cmReconnect e w0 c of
            (Some err, t) \<Rightarrow>
              reconnectLoop k e c (i + 1) (Some err) d
                (perform (Logged err) 0 (perform (CM_Reconnect c) t w0))
          | (None, t) \<Rightarrow>
             (let w1 = perform (CM_Reconnect c) t w0;
                  w2 = perform CM_GetConnection 0 w1
              in case cmGetConnection e w1 of
                   None \<Rightarrow> reconnectLoop k e c (i + 1) (Some NilConnectionAfterReconnect) d w2
                 | Some cn \<Rightarrow>
                    (case DiscoverServices e c (d\<lparr>reflectionClient := Some cn\<rparr>) w2 of
                       (Some err, d1, w3) \<Rightarrow>
                         reconnectLoop k e c (i + 1) (Some err) d1 (perform (Logged err) 0 w3)
                     | (None, d1, w3) \<Rightarrow> (None, d1, w3)))))"

text \<open>\<open>Reconnect\<close> (part\_003, lines 276--324).\<close>

definition Reconnect ::
    "env \<Rightarrow> ctx \<Rightarrow> serviceDiscoverer \<Rightarrow> world \<Rightarrow> error option \<times> serviceDiscoverer \<times> world" where
  "Reconnect e c d w = reconnectLoop (nat (maxReconnectAttempts d)) e c 0 None d w"

text \<open>\<open>Close\<close> (part\_003, lines 346--366): both errors are logged only.\<close>

definition Close :: "env \<Rightarrow> serviceDiscoverer \<Rightarrow> world \<Rightarrow> error option \<times> serviceDiscoverer \<times> world" where
  "Close e d w =
     (let w1 = (case reflectionClient d of
                  None \<Rightarrow> w
                | Some cn \<Rightarrow>
                   (case rcClose e w cn of
                      Some err \<Rightarrow> perform (Logged err) 0 (perform (RC_Close cn) 0 w)
                    | None \<Rightarrow> perform (RC_Close cn) 0 w));
          d1 = d\<lparr>reflectionClient := None\<rparr>;
          w2 = (case cmClose e w1 of
                  Some err \<Rightarrow> perform (Logged err) 0 (perform CM_Close 0 w1)
                | None \<Rightarrow> perform CM_Close 0 w1);
          d2 = d1\<lparr>services := []\<rparr>
      in (None, d2, w2))"

text \<open>\<open>GetServiceCount\<close> and \<open>GetMethodCount\<close> (part\_003, lines 369--387).\<close>

definition GetServiceCount :: "serviceDiscoverer \<Rightarrow> int" where
  "GetServiceCount d = int (length (services d))"

definition GetMethodCount :: "serviceDiscoverer \<Rightarrow> int" where
  "GetMethodCount d =
     fold (\<lambda>(name, service) count. count + int (sliceLen (Methods service))) (services d) 0"

text \<open>
  The states a discoverer made by \<open>NewServiceDiscoverer\<close> can be in: after any sequence
  of calls of its methods that write a field, in any world and environment.
\<close>

inductive reachable :: "serviceDiscoverer \<Rightarrow> bool" where
  reachable_new: "reachable (NewServiceDiscoverer config)"
| reachable_Connect: "reachable d \<Longrightarrow> Connect e c d w = (r, d', w') \<Longrightarrow> reachable d'"
| reachable_DiscoverServices: "reachable d \<Longrightarrow> DiscoverServices e c d w = (r, d', w') \<Longrightarrow> reachable d'"
| reachable_Reconnect: "reachable d \<Longrightarrow> Reconnect e c d w = (r, d', w') \<Longrightarrow> reachable d'"
| reachable_Close: "reachable d \<Longrightarrow> Close e d w = (r, d', w') \<Longrightarrow> reachable d'"

section \<open>The tool-name lookup of the request handler\<close>

text \<open>
  The name \<open>Handler.parseToolName\<close> expects for a service and a method
  (part\_000, lines 652--656).
\<close>

definition expectedToolName :: "string \<Rightarrow> string \<Rightarrow> string" where
  "expectedToolName serviceName methodName =
     (let servicePart = ToLower (ReplaceAll serviceName ''.'' ''_'');
          methodPart = ToLower methodName
      in servicePart @ ''_'' @ methodPart)"

text \<open>
  \<open>Handler.parseToolName\<close> (part\_000, lines 639--680): the first pair whose expected
  name is the tool name, in the order the loops visit the copy of the catalog.
\<close>

primrec matchMethod :: "string \<Rightarrow> string \<Rightarrow> MethodInfo list \<Rightarrow> (string \<times> string) option" where
  "matchMethod toolName serviceName [] = None"
| "matchMethod toolName serviceName (m # rest) =
     (if expectedToolName serviceName (Name m) = toolName then Some (serviceName, Name m)
      else matchMethod toolName serviceName rest)"

primrec matchService :: "world \<Rightarrow> string \<Rightarrow> (string \<times> ServiceInfo) list \<Rightarrow> (string \<times> string) option" where
  "matchService w toolName [] = None"
| "matchService w toolName (entry # rest) =
     (case matchMethod toolName (fst entry) (sliceElems w (Methods (snd entry))) of
        Some found \<Rightarrow> Some found
      | None \<Rightarrow> matchService w toolName rest)"

definition parseToolName :: "world \<Rightarrow> serviceDiscoverer \<Rightarrow> string \<Rightarrow> error + (string \<times> string)" where
  "parseToolName w d toolName =
     (case matchService w toolName (GetServices d) of
        Some found \<Rightarrow> Inr found
      | None \<Rightarrow> Inl (ToolNameNoMatch toolName))"

section \<open>Example inputs\<close>

text \<open>Concrete descriptors, catalogs, worlds and environments on which the theorems are run.\<close>

definition background :: ctx where
  "background = \<lparr>deadline = None, canceledAt = None, outgoingMD = []\<rparr>"

definition emptyWorld :: world where
  "emptyWorld = \<lparr>clock = 0, events = [], heap = (\<lambda>a. []), nextAddr = 0\<rparr>"

definition reflectionOnly :: DescriptorSetConfig where
  "reflectionOnly = \<lparr>Enabled = False, Path = []\<rparr>"

definition doThing :: MethodInfo where
  "doThing =
     \<lparr>Name = ''DoThing'', FullName = ''pkg.sub.Widget.DoThing'', Description = [],
      InputType = ''pkg.sub.Request'', OutputType = ''pkg.sub.Reply'',
      InputDescriptor = None, OutputDescriptor = None,
      IsClientStreaming = False, IsServerStreaming = False\<rparr>"

definition watch :: MethodInfo where
  "watch =
     \<lparr>Name = ''Watch'', FullName = ''pkg.sub.Widget.Watch'', Description = [],
      InputType = ''pkg.sub.Request'', OutputType = ''pkg.sub.Reply'',
      InputDescriptor = None, OutputDescriptor = None,
      IsClientStreaming = False, IsServerStreaming = True\<rparr>"

text \<open>
  A connected discoverer whose catalog is exactly the service \<open>pkg.sub.Widget\<close> with
  the method \<open>DoThing\<close>, and the world that holds its \<open>Methods\<close> array.
\<close>

definition widgetCatalog :: serviceDiscoverer where
  "widgetCatalog =
     \<lparr>reflectionClient = Some 1,
      services = [(''pkg.sub.Widget'',
                   \<lparr>ServiceName = ''pkg.sub.Widget'', Methods = \<lparr>sliceArray = 0, sliceLen = 1\<rparr>\<rparr>)],
      descriptorConfig = reflectionOnly, reconnectInterval = 5 * Second,
      maxReconnectAttempts = 5\<rparr>"

definition widgetWorld :: world where
  "widgetWorld =
     \<lparr>clock = 0, events = [], heap = (\<lambda>a. if a = 0 then [doThing] else []), nextAddr = 1\<rparr>"

text \<open>
  An environment in which connecting and discovery succeed (discovery finds
  \<open>pkg.sub.Widget\<close> with \<open>DoThing\<close> and the streaming \<open>Watch\<close>), every call takes one
  nanosecond, and reconnecting and closing fail.
\<close>

definition exampleEnv :: env where
  "exampleEnv =
     \<lparr>cmConnect = (\<lambda>w c. (None, 1)),
      cmReconnect = (\<lambda>w c. (Some (External ''dial failed''), 1)),
      cmGetConnection = (\<lambda>w. Some 1),
      cmClose = (\<lambda>w. Some (External ''connection close failed'')),
      rcHealthCheck = (\<lambda>w cn c. (None, 1)),
      rcDiscoverServices = (\<lambda>w cn c. (Inr [(''pkg.sub.Widget'', [doThing, watch])], 1)),
      rcInvokeMethod = (\<lambda>w cn c m inputJSON. (Inr ''{}'', 1)),
      rcClose = (\<lambda>w cn. Some (External ''client close failed'')),
      loadFromFile = (\<lambda>w path. (Some (External ''no such file''), 1)),
      buildRegistry = (\<lambda>w. None),
      extractServiceInfo = (\<lambda>w. Inr [])\<rparr>"

text \<open>
  A new discoverer after \<open>Connect\<close>, and after \<open>Connect\<close> and \<open>DiscoverServices\<close>, in
  that environment.
\<close>

definition afterConnect :: "error option \<times> serviceDiscoverer \<times> world" where
  "afterConnect = Connect exampleEnv background (NewServiceDiscoverer reflectionOnly) emptyWorld"

definition afterDiscovery :: "error option \<times> serviceDiscoverer \<times> world" where
  "afterDiscovery =
     DiscoverServices exampleEnv background (fst (snd afterConnect)) (snd (snd afterConnect))"

text \<open>A caller's context with a deadline 100 seconds after time 0.\<close>

definition lateDeadline :: ctx where
  "lateDeadline = \<lparr>deadline = Some (100 * Second), canceledAt = None, outgoingMD = []\<rparr>"

text \<open>A context whose deadline (time 5) has passed in a world whose clock shows 10.\<close>

definition expired :: ctx where
  "expired = \<lparr>deadline = Some 5, canceledAt = None, outgoingMD = []\<rparr>"

definition lateWorld :: world where
  "lateWorld = \<lparr>clock = 10, events = [], heap = (\<lambda>a. []), nextAddr = 0\<rparr>"

text \<open>
  Variants of that environment: reconnecting succeeds; reconnecting succeeds but the
  connection manager then has no connection; reconnecting succeeds but the discovery
  that follows fails.
\<close>

definition recoveringEnv :: env where
  "recoveringEnv = exampleEnv\<lparr>cmReconnect := (\<lambda>w c. (None, 1))\<rparr>"

definition nilConnectionEnv :: env where
  "nilConnectionEnv = recoveringEnv\<lparr>cmGetConnection := (\<lambda>w. None)\<rparr>"

definition failingDiscoveryEnv :: env where
  "failingDiscoveryEnv =
     recoveringEnv\<lparr>rcDiscoverServices := (\<lambda>w cn c. (Inl (External ''unavailable''), 1))\<rparr>"

text \<open>
  A catalog in which \<open>pkg.sub.Widget\<close> has the methods \<open>DoThing\<close> and \<open>Watch\<close> and a
  second service \<open>pkg.Gadget\<close> has its own \<open>DoThing\<close>, with the world that holds the two
  \<open>Methods\<close> arrays.
\<close>

definition gadgetDoThing :: MethodInfo where
  "gadgetDoThing = doThing\<lparr>FullName := ''pkg.Gadget.DoThing''\<rparr>"

definition twoServiceCatalog :: serviceDiscoverer where
  "twoServiceCatalog =
     \<lparr>reflectionClient = Some 1,
      services = [(''pkg.Gadget'',
                   \<lparr>ServiceName = ''pkg.Gadget'', Methods = \<lparr>sliceArray = 1, sliceLen = 1\<rparr>\<rparr>),
                  (''pkg.sub.Widget'',
                   \<lparr>ServiceName = ''pkg.sub.Widget'', Methods = \<lparr>sliceArray = 0, sliceLen = 2\<rparr>\<rparr>)],
      descriptorConfig = reflectionOnly, reconnectInterval = 5 * Second,
      maxReconnectAttempts = 5\<rparr>"

definition twoServiceWorld :: world where
  "twoServiceWorld =
     \<lparr>clock = 0, events = [],
      heap = (\<lambda>a. if a = 0 then [watch, doThing] else if a = 1 then [gadgetDoThing] else []),
      nextAddr = 2\<rparr>"

text \<open>
  A catalog in which \<open>pkg.sub.Widget\<close> has two methods whose names differ in case only,
  \<open>dothing\<close> and \<open>DoThing\<close>, in that order.
\<close>

definition doThingLower :: MethodInfo where
  "doThingLower = doThing\<lparr>Name := ''dothing'', FullName := ''pkg.sub.Widget.dothing''\<rparr>"

definition collidingCatalog :: serviceDiscoverer where
  "collidingCatalog =
     \<lparr>reflectionClient = Some 1,
      services = [(''pkg.sub.Widget'',
                   \<lparr>ServiceName = ''pkg.sub.Widget'', Methods = \<lparr>sliceArray = 0, sliceLen = 2\<rparr>\<rparr>)],
      descriptorConfig = reflectionOnly, reconnectInterval = 5 * Second,
      maxReconnectAttempts = 5\<rparr>"

definition collidingWorld :: world where
  "collidingWorld =
     \<lparr>clock = 0, events = [], heap = (\<lambda>a. if a = 0 then [doThingLower, doThing] else []),
      nextAddr = 1\<rparr>"

text \<open>
  A singular proto3 field without comments and without the \<open>optional\<close> keyword, of the
  given name and kind; \<open>message\<close> is the full name of its message type when the kind is
  \<open>MessageKind\<close>. Such a field has presence exactly when it is of message kind.
\<close>

definition plainField :: "string \<Rightarrow> Kind \<Rightarrow> string \<Rightarrow> FieldDescriptor" where
  "plainField name kind message =
     FieldDescriptor
       \<lparr>Field_Name = name, Field_Kind = kind, Field_Cardinality = Optional,
        Field_HasOptionalKeyword = False, Field_HasPresence = (kind = MessageKind),
        Field_Enum = \<lparr>Enum_Values = [], Enum_Comments = []\<rparr>, Field_Message = message,
        Field_Comments = [], Field_LeadingComments = [], Field_TrailingComments = []\<rparr>
       None"

section \<open>The scalar mapping table of the specification\<close>

text \<open>
  The fixed table of section 4.4 of the specification, as claim C4 words it: the schema
  of each scalar kind, and \<open>None\<close> for the enum, message and group kinds.
\<close>

definition specScalarSchema :: "Kind \<Rightarrow> json option" where
  "specScalarSchema k =
     (if k = BoolKind then Some (JObject [(''type'', JString ''boolean'')])
      else if k \<in> {Int32Kind, Sint32Kind, Sfixed32Kind} then
        Some (JObject [(''type'', JString ''integer''), (''format'', JString ''int32'')])
      else if k \<in> {Int64Kind, Sint64Kind, Sfixed64Kind} then
        Some (JObject [(''type'', JString ''integer''), (''format'', JString ''int64'')])
      else if k \<in> {Uint32Kind, Fixed32Kind} then
        Some (JObject [(''type'', JString ''integer''), (''format'', JString ''uint32''),
                       (''minimum'', JInt 0)])
      else if k \<in> {Uint64Kind, Fixed64Kind} then
        Some (JObject [(''type'', JString ''integer''), (''format'', JString ''uint64''),
                       (''minimum'', JInt 0)])
      else if k = FloatKind then
        Some (JObject [(''type'', JString ''number''), (''format'', JString ''float'')])
      else if k = DoubleKind then
        Some (JObject [(''type'', JString ''number''), (''format'', JString ''double'')])
      else if k = StringKind then Some (JObject [(''type'', JString ''string'')])
      else if k = BytesKind then
        Some (JObject [(''type'', JString ''string''), (''format'', JString ''byte'')])
      else None)"

section \<open>Example descriptor graphs\<close>

text \<open>
  A cycle: message \<open>A\<close> has a field \<open>b\<close> of type \<open>B\<close>, and \<open>B\<close> has a field \<open>a\<close> of
  type \<open>A\<close>.
\<close>

definition cycleA :: MessageDescriptor where
  "cycleA = \<lparr>Message_FullName = ''A'', Message_Fields = [plainField ''b'' MessageKind ''B''],
             Message_Oneofs = [], Message_Comments = []\<rparr>"

definition cycleB :: MessageDescriptor where
  "cycleB = \<lparr>Message_FullName = ''B'', Message_Fields = [plainField ''a'' MessageKind ''A''],
             Message_Oneofs = [], Message_Comments = []\<rparr>"

text \<open>
  A diamond without a cycle: message \<open>R\<close> has two fields \<open>x\<close> and \<open>y\<close> of the same
  type \<open>L\<close>, and \<open>L\<close> has one unsigned field \<open>n\<close>.
\<close>

definition diamondR :: MessageDescriptor where
  "diamondR = \<lparr>Message_FullName = ''R'',
               Message_Fields = [plainField ''x'' MessageKind ''L'', plainField ''y'' MessageKind ''L''],
               Message_Oneofs = [], Message_Comments = []\<rparr>"

definition diamondL :: MessageDescriptor where
  "diamondL = \<lparr>Message_FullName = ''L'', Message_Fields = [plainField ''n'' Uint32Kind []],
               Message_Oneofs = [], Message_Comments = []\<rparr>"

section \<open>Tool names\<close>

lemma widget_tool_name:
  "Builder_generateToolName ''pkg.sub.Widget'' ''DoThing'' = ''pkg_sub_widget_dothing''"
  by code_simp

lemma GetServices_single: "services d = [(n, s)] \<Longrightarrow> GetServices d = [(n, s)]"
  by (simp add: GetServices_def)

text \<open>
  Claim C9. The three derivations of a tool name compute the same string for every
  service name and method name: \<open>generateToolName\<close> of package descriptors,
  \<open>Builder.generateToolName\<close> of package tools, and the name the handler's
  \<open>parseToolName\<close> expects; the comparison \<open>parseToolName\<close> makes for a method is the
  comparison with that string.
\<close>

theorem tool_name_derivations_agree:
  "generateToolName serviceName methodName = Builder_generateToolName serviceName methodName
   \<and> Builder_generateToolName serviceName methodName = expectedToolName serviceName methodName
   \<and> matchMethod toolName serviceName [m] =
       (if generateToolName serviceName (Name m) = toolName then Some (serviceName, Name m) else None)"
  by (simp add: generateToolName_def Builder_generateToolName_def expectedToolName_def)

theorem tool_name_derivations_agree_witness:
  "generateToolName ''pkg.sub.Widget'' ''DoThing'' = ''pkg_sub_widget_dothing''
   \<and> expectedToolName ''pkg.sub.Widget'' ''DoThing'' = ''pkg_sub_widget_dothing''
   \<and> matchMethod ''pkg_sub_widget_dothing'' ''pkg.sub.Widget'' [doThing] = Some (''pkg.sub.Widget'', ''DoThing'')"
  using tool_name_derivations_agree [of "''pkg.sub.Widget''" "''DoThing''" "''pkg_sub_widget_dothing''" doThing]
  by (simp add: widget_tool_name doThing_def)

section \<open>Looking a tool name up\<close>

lemma matchMethod_Some:
  "matchMethod toolName serviceName ms = Some found \<Longrightarrow>
     \<exists>m \<in> set ms. found = (serviceName, Name m) \<and> expectedToolName serviceName (Name m) = toolName"
  by (induction ms) (auto split: if_splits)

lemma matchMethod_None:
  "matchMethod toolName serviceName ms = None \<Longrightarrow> m \<in> set ms \<Longrightarrow>
     expectedToolName serviceName (Name m) \<noteq> toolName"
  by (induction ms) (auto split: if_splits)

lemma matchService_Some:
  "matchService w toolName entries = Some found \<Longrightarrow>
     \<exists>entry \<in> set entries. \<exists>m \<in> set (sliceElems w (Methods (snd entry))).
        found = (fst entry, Name m) \<and> expectedToolName (fst entry) (Name m) = toolName"
proof (induction entries)
  case Nil
  then show ?case by simp
next
  case (Cons entry rest)
  show ?case
  proof (cases "matchMethod toolName (fst entry) (sliceElems w (Methods (snd entry)))")
    case None
    with Cons.prems have "matchService w toolName rest = Some found" by simp
    from Cons.IH[OF this] show ?thesis by auto
  next
    case (Some found')
    with Cons.prems have "found' = found" by simp
    with matchMethod_Some[OF Some] show ?thesis by auto
  qed
qed

lemma matchService_None:
  "matchService w toolName entries = None \<Longrightarrow> entry \<in> set entries \<Longrightarrow>
     m \<in> set (sliceElems w (Methods (snd entry))) \<Longrightarrow>
     expectedToolName (fst entry) (Name m) \<noteq> toolName"
proof (induction entries)
  case Nil
  then show ?case by simp
next
  case (Cons first rest)
  from Cons.prems(1) have
    here: "matchMethod toolName (fst first) (sliceElems w (Methods (snd first))) = None"
    and later: "matchService w toolName rest = None"
    by (auto split: option.splits)
  show ?case
  proof (cases "entry = first")
    case True
    with matchMethod_None[OF here] Cons.prems(3) show ?thesis by simp
  next
    case False
    with Cons.prems(2) have "entry \<in> set rest" by simp
    from Cons.IH[OF later this Cons.prems(3)] show ?thesis .
  qed
qed

lemma generated_is_expected:
  "Builder_generateToolName serviceName methodName = expectedToolName serviceName methodName"
  by (simp add: Builder_generateToolName_def expectedToolName_def)

text \<open>
  Claim C5, as amended. The tool name generated for service \<open>pkg.sub.Widget\<close> and method
  \<open>DoThing\<close> is \<open>pkg_sub_widget_dothing\<close>. For every catalog that contains a service with
  a method, parsing the name generated for them returns that service and that method,
  provided no other pair of the catalog generates the same name. Whatever the catalog,
  a pair that parsing returns is a service of the catalog with one of its methods, and
  the name generated for it is the tool name; and parsing fails only when no pair of the
  catalog generates the tool name.
\<close>

theorem tool_name_round_trip:
  "Builder_generateToolName ''pkg.sub.Widget'' ''DoThing'' = ''pkg_sub_widget_dothing''
   \<and> (\<forall>w d serviceName service m.
        (serviceName, service) \<in> set (GetServices d) \<and> m \<in> set (sliceElems w (Methods service))
        \<and> (\<forall>sn svc m'. (sn, svc) \<in> set (GetServices d) \<and> m' \<in> set (sliceElems w (Methods svc))
               \<and> Builder_generateToolName sn (Name m') = Builder_generateToolName serviceName (Name m)
               \<longrightarrow> sn = serviceName \<and> Name m' = Name m)
        \<longrightarrow> parseToolName w d (Builder_generateToolName serviceName (Name m)) = Inr (serviceName, Name m))
   \<and> (\<forall>w d toolName sn mn.
        parseToolName w d toolName = Inr (sn, mn) \<longrightarrow>
        (\<exists>svc m. (sn, svc) \<in> set (GetServices d) \<and> m \<in> set (sliceElems w (Methods svc))
                 \<and> Name m = mn \<and> Builder_generateToolName sn mn = toolName))
   \<and> (\<forall>w d toolName err sn svc m.
        parseToolName w d toolName = Inl err \<and> (sn, svc) \<in> set (GetServices d)
        \<and> m \<in> set (sliceElems w (Methods svc)) \<longrightarrow>
        err = ToolNameNoMatch toolName \<and> Builder_generateToolName sn (Name m) \<noteq> toolName)"
proof (intro conjI allI impI)
  show "Builder_generateToolName ''pkg.sub.Widget'' ''DoThing'' = ''pkg_sub_widget_dothing''"
    by (rule widget_tool_name)
next
  fix w :: world and d :: serviceDiscoverer and serviceName and service :: ServiceInfo
    and m :: MethodInfo
  let ?name = "Builder_generateToolName serviceName (Name m)"
  assume a: "(serviceName, service) \<in> set (GetServices d) \<and> m \<in> set (sliceElems w (Methods service))
        \<and> (\<forall>sn svc m'. (sn, svc) \<in> set (GetServices d) \<and> m' \<in> set (sliceElems w (Methods svc))
               \<and> Builder_generateToolName sn (Name m') = Builder_generateToolName serviceName (Name m)
               \<longrightarrow> sn = serviceName \<and> Name m' = Name m)"
  then have entry: "(serviceName, service) \<in> set (GetServices d)"
    and member: "m \<in> set (sliceElems w (Methods service))"
    and unique: "\<And>sn svc m'. (sn, svc) \<in> set (GetServices d) \<Longrightarrow> m' \<in> set (sliceElems w (Methods svc))
               \<Longrightarrow> Builder_generateToolName sn (Name m') = ?name
               \<Longrightarrow> sn = serviceName \<and> Name m' = Name m"
    by blast+
  show "parseToolName w d ?name = Inr (serviceName, Name m)"
  proof (cases "matchService w ?name (GetServices d)")
    case None
    from matchService_None[OF None entry] member
    have "expectedToolName serviceName (Name m) \<noteq> ?name" by simp
    then show ?thesis by (simp add: generated_is_expected)
  next
    case (Some found)
    from matchService_Some[OF Some] obtain entry' m' where
      e': "entry' \<in> set (GetServices d)" and m': "m' \<in> set (sliceElems w (Methods (snd entry')))"
      and found: "found = (fst entry', Name m')"
      and same: "expectedToolName (fst entry') (Name m') = ?name"
      by blast
    from e' have "(fst entry', snd entry') \<in> set (GetServices d)" by simp
    from unique[OF this m'] same have "fst entry' = serviceName \<and> Name m' = Name m"
      by (simp add: generated_is_expected)
    with found Some show ?thesis by (simp add: parseToolName_def)
  qed
next
  fix w :: world and d :: serviceDiscoverer and toolName sn mn
  assume "parseToolName w d toolName = Inr (sn, mn)"
  then have "matchService w toolName (GetServices d) = Some (sn, mn)"
    by (auto simp: parseToolName_def split: option.splits)
  from matchService_Some[OF this] obtain entry m where
    "entry \<in> set (GetServices d)" "m \<in> set (sliceElems w (Methods (snd entry)))"
    "(sn, mn) = (fst entry, Name m)" "expectedToolName (fst entry) (Name m) = toolName"
    by blast
  then have "(sn, snd entry) \<in> set (GetServices d) \<and> m \<in> set (sliceElems w (Methods (snd entry)))
      \<and> Name m = mn \<and> Builder_generateToolName sn mn = toolName"
    by (auto simp: generated_is_expected)
  then show "\<exists>svc m. (sn, svc) \<in> set (GetServices d) \<and> m \<in> set (sliceElems w (Methods svc))
                 \<and> Name m = mn \<and> Builder_generateToolName sn mn = toolName"
    by blast
next
  fix w :: world and d :: serviceDiscoverer and toolName err sn and svc :: ServiceInfo
    and m :: MethodInfo
  assume a: "parseToolName w d toolName = Inl err \<and> (sn, svc) \<in> set (GetServices d)
        \<and> m \<in> set (sliceElems w (Methods svc))"
  then have none: "matchService w toolName (GetServices d) = None"
    and err: "err = ToolNameNoMatch toolName"
    by (auto simp: parseToolName_def split: option.splits)
  from a have "(sn, svc) \<in> set (GetServices d)" "m \<in> set (sliceElems w (Methods (snd (sn, svc))))"
    by simp_all
  from matchService_None[OF none this] have "expectedToolName sn (Name m) \<noteq> toolName" by simp
  with err show "err = ToolNameNoMatch toolName" "Builder_generateToolName sn (Name m) \<noteq> toolName"
    by (simp_all add: generated_is_expected)
qed

text \<open>
  The claim as stated fails when another pair of the catalog generates the same name:
  in a catalog where \<open>pkg.sub.Widget\<close> has the methods \<open>dothing\<close> and \<open>DoThing\<close>, the
  name generated for \<open>DoThing\<close> parses to \<open>dothing\<close>.
\<close>

lemma widget_names:
  "expectedToolName ''pkg.sub.Widget'' ''dothing'' = ''pkg_sub_widget_dothing''"
  "expectedToolName ''pkg.sub.Widget'' ''DoThing'' = ''pkg_sub_widget_dothing''"
  "expectedToolName ''pkg.sub.Widget'' ''Watch'' = ''pkg_sub_widget_watch''"
  "expectedToolName ''pkg.Gadget'' ''DoThing'' = ''pkg_gadget_dothing''"
  by code_simp+

lemma collidingCatalog_eval:
  "GetServices collidingCatalog =
     [(''pkg.sub.Widget'', \<lparr>ServiceName = ''pkg.sub.Widget'', Methods = \<lparr>sliceArray = 0, sliceLen = 2\<rparr>\<rparr>)]"
  "sliceElems collidingWorld \<lparr>sliceArray = 0, sliceLen = 2\<rparr> = [doThingLower, doThing]"
  "Name doThingLower = ''dothing''" "Name doThing = ''DoThing''"
  by (simp_all add: GetServices_def collidingCatalog_def sliceElems_def collidingWorld_def
      doThingLower_def doThing_def)

theorem tool_name_collision_counterexample:
  "(''pkg.sub.Widget'', \<lparr>ServiceName = ''pkg.sub.Widget'', Methods = \<lparr>sliceArray = 0, sliceLen = 2\<rparr>\<rparr>)
      \<in> set (GetServices collidingCatalog)
   \<and> doThing \<in> set (sliceElems collidingWorld \<lparr>sliceArray = 0, sliceLen = 2\<rparr>)
   \<and> Name doThing = ''DoThing''
   \<and> Builder_generateToolName ''pkg.sub.Widget'' ''DoThing'' = ''pkg_sub_widget_dothing''
   \<and> parseToolName collidingWorld collidingCatalog ''pkg_sub_widget_dothing''
        = Inr (''pkg.sub.Widget'', ''dothing'')
   \<and> (''pkg.sub.Widget'', ''dothing'') \<noteq> (''pkg.sub.Widget'', ''DoThing'')"
  by (simp add: collidingCatalog_eval widget_tool_name parseToolName_def widget_names)

text \<open>
  In a catalog with the services \<open>pkg.Gadget\<close> (method \<open>DoThing\<close>) and \<open>pkg.sub.Widget\<close>
  (methods \<open>Watch\<close> and \<open>DoThing\<close>) no two pairs generate the same name, and the name
  generated for \<open>pkg.sub.Widget\<close> and \<open>DoThing\<close> parses to that pair.
\<close>

lemma twoServiceCatalog_eval:
  "GetServices twoServiceCatalog =
     [(''pkg.Gadget'', \<lparr>ServiceName = ''pkg.Gadget'', Methods = \<lparr>sliceArray = 1, sliceLen = 1\<rparr>\<rparr>),
      (''pkg.sub.Widget'', \<lparr>ServiceName = ''pkg.sub.Widget'', Methods = \<lparr>sliceArray = 0, sliceLen = 2\<rparr>\<rparr>)]"
  "sliceElems twoServiceWorld \<lparr>sliceArray = 0, sliceLen = 2\<rparr> = [watch, doThing]"
  "sliceElems twoServiceWorld \<lparr>sliceArray = 1, sliceLen = 1\<rparr> = [gadgetDoThing]"
  "sliceElems twoServiceWorld \<lparr>sliceArray = Suc 0, sliceLen = Suc 0\<rparr> = [gadgetDoThing]"
  "Name watch = ''Watch''" "Name doThing = ''DoThing''" "Name gadgetDoThing = ''DoThing''"
  by (simp_all add: GetServices_def twoServiceCatalog_def sliceElems_def twoServiceWorld_def
      watch_def gadgetDoThing_def doThing_def)

theorem tool_name_round_trip_witness:
  "(''pkg.sub.Widget'', \<lparr>ServiceName = ''pkg.sub.Widget'', Methods = \<lparr>sliceArray = 0, sliceLen = 2\<rparr>\<rparr>)
      \<in> set (GetServices twoServiceCatalog)
   \<and> doThing \<in> set (sliceElems twoServiceWorld \<lparr>sliceArray = 0, sliceLen = 2\<rparr>)
   \<and> parseToolName twoServiceWorld twoServiceCatalog ''pkg_sub_widget_dothing''
        = Inr (''pkg.sub.Widget'', ''DoThing'')
   \<and> parseToolName twoServiceWorld twoServiceCatalog ''pkg_gadget_dothing''
        = Inr (''pkg.Gadget'', ''DoThing'')
   \<and> parseToolName twoServiceWorld twoServiceCatalog ''pkg_sub_widget''
        = Inl (ToolNameNoMatch ''pkg_sub_widget'')"
proof -
  let ?widget = "\<lparr>ServiceName = ''pkg.sub.Widget'', Methods = \<lparr>sliceArray = 0, sliceLen = 2\<rparr>\<rparr>"
  let ?gadget = "\<lparr>ServiceName = ''pkg.Gadget'', Methods = \<lparr>sliceArray = 1, sliceLen = 1\<rparr>\<rparr>"
  note roundTrip = tool_name_round_trip[THEN conjunct2, THEN conjunct1, rule_format]
  have entry: "(''pkg.sub.Widget'', ?widget) \<in> set (GetServices twoServiceCatalog)"
    and gentry: "(''pkg.Gadget'', ?gadget) \<in> set (GetServices twoServiceCatalog)"
    by (simp_all add: twoServiceCatalog_eval)
  have member: "doThing \<in> set (sliceElems twoServiceWorld (Methods ?widget))"
    and gmember: "gadgetDoThing \<in> set (sliceElems twoServiceWorld (Methods ?gadget))"
    by (simp_all add: twoServiceCatalog_eval)
  have unique: "\<forall>sn svc m'. (sn, svc) \<in> set (GetServices twoServiceCatalog)
        \<and> m' \<in> set (sliceElems twoServiceWorld (Methods svc))
        \<and> Builder_generateToolName sn (Name m') = Builder_generateToolName ''pkg.sub.Widget'' (Name doThing)
        \<longrightarrow> sn = ''pkg.sub.Widget'' \<and> Name m' = Name doThing"
    by (auto simp: twoServiceCatalog_eval generated_is_expected widget_names)
  have gunique: "\<forall>sn svc m'. (sn, svc) \<in> set (GetServices twoServiceCatalog)
        \<and> m' \<in> set (sliceElems twoServiceWorld (Methods svc))
        \<and> Builder_generateToolName sn (Name m') = Builder_generateToolName ''pkg.Gadget'' (Name gadgetDoThing)
        \<longrightarrow> sn = ''pkg.Gadget'' \<and> Name m' = Name gadgetDoThing"
    by (auto simp: twoServiceCatalog_eval generated_is_expected widget_names)
  have "parseToolName twoServiceWorld twoServiceCatalog
          (Builder_generateToolName ''pkg.sub.Widget'' (Name doThing))
        = Inr (''pkg.sub.Widget'', Name doThing)"
    by (rule roundTrip) (use entry member unique in blast)
  then have r1: "parseToolName twoServiceWorld twoServiceCatalog ''pkg_sub_widget_dothing''
        = Inr (''pkg.sub.Widget'', ''DoThing'')"
    by (simp add: twoServiceCatalog_eval generated_is_expected widget_names)
  have "parseToolName twoServiceWorld twoServiceCatalog
          (Builder_generateToolName ''pkg.Gadget'' (Name gadgetDoThing))
        = Inr (''pkg.Gadget'', Name gadgetDoThing)"
    by (rule roundTrip) (use gentry gmember gunique in blast)
  then have r2: "parseToolName twoServiceWorld twoServiceCatalog ''pkg_gadget_dothing''
        = Inr (''pkg.Gadget'', ''DoThing'')"
    by (simp add: twoServiceCatalog_eval generated_is_expected widget_names)
  have r3: "parseToolName twoServiceWorld twoServiceCatalog ''pkg_sub_widget''
        = Inl (ToolNameNoMatch ''pkg_sub_widget'')"
    by (simp add: parseToolName_def twoServiceCatalog_eval widget_names)
  from entry member r1 r2 r3 show ?thesis by simp
qed

section \<open>Closing the discoverer\<close>

text \<open>
  Claim C10. \<open>Close\<close> always returns nil, whatever closing the reflection client and the
  connection manager return: the connection manager is closed in every case, a failure of
  the reflection client's \<open>Close\<close> is logged, and a failure of the connection manager's
  \<open>Close\<close> is logged (it is called in the world the closing of the reflection client has
  left). Afterwards the catalog is empty: \<open>GetServiceCount\<close> and \<open>GetMethodCount\<close> are 0
  and \<open>GetServices\<close> is the empty map.
\<close>

theorem Close_returns_nil_and_empties_catalog:
  "Close e d w = (r, d', w') \<Longrightarrow>
     r = None \<and> reflectionClient d' = None
     \<and> GetServiceCount d' = 0 \<and> GetMethodCount d' = 0 \<and> GetServices d' = []
     \<and> (\<forall>cn err. reflectionClient d = Some cn \<and> rcClose e w cn = Some err \<longrightarrow>
           Logged err \<in> set (events w'))
     \<and> CM_Close \<in> set (events w')
     \<and> (\<forall>err. reflectionClient d = None \<and> cmClose e w = Some err \<longrightarrow>
           Logged err \<in> set (events w'))
     \<and> (\<forall>cn err. reflectionClient d = Some cn \<and> rcClose e w cn = None
             \<and> cmClose e (perform (RC_Close cn) 0 w) = Some err \<longrightarrow>
           Logged err \<in> set (events w'))
     \<and> (\<forall>cn err0 err. reflectionClient d = Some cn \<and> rcClose e w cn = Some err0
             \<and> cmClose e (perform (Logged err0) 0 (perform (RC_Close cn) 0 w)) = Some err \<longrightarrow>
           Logged err \<in> set (events w'))"
  by (auto simp: Close_def Let_def GetServiceCount_def GetMethodCount_def GetServices_def
      perform_def split: option.splits)

theorem Close_returns_nil_and_empties_catalog_witness:
  "GetServiceCount widgetCatalog = 1
   \<and> reflectionClient widgetCatalog = Some 1
   \<and> rcClose exampleEnv widgetWorld 1 = Some (External ''client close failed'')
   \<and> cmClose exampleEnv
        (perform (Logged (External ''client close failed'')) 0 (perform (RC_Close 1) 0 widgetWorld))
        = Some (External ''connection close failed'')
   \<and> fst (Close exampleEnv widgetCatalog widgetWorld) = None
   \<and> GetServiceCount (fst (snd (Close exampleEnv widgetCatalog widgetWorld))) = 0
   \<and> GetMethodCount (fst (snd (Close exampleEnv widgetCatalog widgetWorld))) = 0
   \<and> GetServices (fst (snd (Close exampleEnv widgetCatalog widgetWorld))) = []
   \<and> Logged (External ''client close failed'')
        \<in> set (events (snd (snd (Close exampleEnv widgetCatalog widgetWorld))))
   \<and> CM_Close \<in> set (events (snd (snd (Close exampleEnv widgetCatalog widgetWorld))))
   \<and> Logged (External ''connection close failed'')
        \<in> set (events (snd (snd (Close exampleEnv widgetCatalog widgetWorld))))"
proof -
  have rc: "reflectionClient widgetCatalog = Some 1" by (simp add: widgetCatalog_def)
  have e1: "rcClose exampleEnv widgetWorld 1 = Some (External ''client close failed'')"
    by (simp add: exampleEnv_def)
  have e2: "cmClose exampleEnv
        (perform (Logged (External ''client close failed'')) 0 (perform (RC_Close 1) 0 widgetWorld))
        = Some (External ''connection close failed'')"
    by (simp add: exampleEnv_def)
  have n: "GetServiceCount widgetCatalog = 1" by (simp add: widgetCatalog_def GetServiceCount_def)
  note closed = Close_returns_nil_and_empties_catalog
    [of exampleEnv widgetCatalog widgetWorld
        "fst (Close exampleEnv widgetCatalog widgetWorld)"
        "fst (snd (Close exampleEnv widgetCatalog widgetWorld))"
        "snd (snd (Close exampleEnv widgetCatalog widgetWorld))", simplified]
  from closed rc e1 e2 n show ?thesis by blast
qed

section \<open>Invoking methods\<close>

lemma Connect_invariant:
  assumes "Connect e c d w = (r, d', w')"
    and "reflectionClient d = None \<longrightarrow> services d = []"
  shows "reflectionClient d' = None \<longrightarrow> services d' = []"
  using assms
  by (auto simp: Connect_def Let_def split: prod.splits option.splits)

lemma discoverFromFileDescriptor_client:
  "discoverFromFileDescriptor e d w = (r, d', w') \<Longrightarrow> reflectionClient d' = reflectionClient d"
  by (auto simp: discoverFromFileDescriptor_def Let_def split: prod.splits option.splits sum.splits)

lemma discoverFromReflection_client:
  "discoverFromReflection e c cn d w = (r, d', w') \<Longrightarrow> reflectionClient d' = reflectionClient d"
  by (auto simp: discoverFromReflection_def split: prod.splits sum.splits)

lemma DiscoverServices_client:
  assumes that: "DiscoverServices e c d w = (r, d', w')"
  shows "reflectionClient d' = reflectionClient d"
proof (cases "reflectionClient d")
  case None
  then show ?thesis using that by (simp add: DiscoverServices_def)
next
  case (Some cn)
  show ?thesis
  proof (cases "Enabled (descriptorConfig d) \<and> Path (descriptorConfig d) \<noteq> []")
    case False
    with Some that have "discoverFromReflection e c cn d w = (r, d', w')"
      by (auto simp: DiscoverServices_def)
    then show ?thesis by (rule discoverFromReflection_client)
  next
    case True
    obtain r1 d1 w1 where fd: "discoverFromFileDescriptor e d w = (r1, d1, w1)"
      by (cases "discoverFromFileDescriptor e d w") auto
    have d1: "reflectionClient d1 = reflectionClient d"
      using discoverFromFileDescriptor_client[OF fd] .
    show ?thesis
    proof (cases r1)
      case None
      with Some True fd that have "d' = d1" by (simp add: DiscoverServices_def)
      with d1 show ?thesis by simp
    next
      case (Some err)
      with \<open>reflectionClient d = Some cn\<close> True fd that
      have "discoverFromReflection e c cn d1 (perform (Logged err) 0 w1) = (r, d', w')"
        by (simp add: DiscoverServices_def)
      from discoverFromReflection_client[OF this] d1 show ?thesis by simp
    qed
  qed
qed

lemma DiscoverServices_not_connected:
  "reflectionClient d = None \<Longrightarrow> DiscoverServices e c d w = (Some NotConnected, d, w)"
  by (simp add: DiscoverServices_def)

lemma reconnectLoop_client:
  "reconnectLoop k e c i lastErr d w = (r, d', w') \<Longrightarrow>
     (reflectionClient d' = reflectionClient d \<and> services d' = services d) \<or> reflectionClient d' \<noteq> None"
proof (induction k arbitrary: i lastErr d w)
  case 0
  then show ?case by simp
next
  case (Suc k)
  show ?case
  proof (cases "if i > 0 then waitInterval c (reconnectInterval d) w else (None, w)")
    case (Pair waited w0)
    show ?thesis
    proof (cases waited)
      case (Some err)
      with Pair Suc.prems show ?thesis by simp
    next
      case None
      note waited = this
      show ?thesis
      proof (cases "cmReconnect e w0 c")
        case (Pair res t)
        note cm = this
        show ?thesis
        proof (cases res)
          case (Some err)
          with \<open>(if i > 0 then waitInterval c (reconnectInterval d) w else (None, w)) = (waited, w0)\<close>
            waited cm Suc.prems
          have "reconnectLoop k e c (i + 1) (Some err) d
                  (perform (Logged err) 0 (perform (CM_Reconnect c) t w0)) = (r, d', w')"
            by simp
          then show ?thesis by (rule Suc.IH)
        next
          case None
          note ok = this
          show ?thesis
          proof (cases "cmGetConnection e (perform (CM_Reconnect c) t w0)")
            case None
            with \<open>(if i > 0 then waitInterval c (reconnectInterval d) w else (None, w)) = (waited, w0)\<close>
              waited cm ok Suc.prems
            have "reconnectLoop k e c (i + 1) (Some NilConnectionAfterReconnect) d
                    (perform CM_GetConnection 0 (perform (CM_Reconnect c) t w0)) = (r, d', w')"
              by (simp add: Let_def)
            then show ?thesis by (rule Suc.IH)
          next
            case (Some cn)
            note conn = this
            obtain r1 d1 w3 where ds:
              "DiscoverServices e c (d\<lparr>reflectionClient := Some cn\<rparr>)
                 (perform CM_GetConnection 0 (perform (CM_Reconnect c) t w0)) = (r1, d1, w3)"
              by (cases "DiscoverServices e c (d\<lparr>reflectionClient := Some cn\<rparr>)
                 (perform CM_GetConnection 0 (perform (CM_Reconnect c) t w0))") auto
            have d1: "reflectionClient d1 = Some cn"
              using DiscoverServices_client[OF ds] by simp
            show ?thesis
            proof (cases r1)
              case None
              with \<open>(if i > 0 then waitInterval c (reconnectInterval d) w else (None, w)) = (waited, w0)\<close>
                waited cm ok conn ds Suc.prems
              have "d' = d1" by (simp add: Let_def)
              with d1 show ?thesis by simp
            next
              case (Some err)
              with \<open>(if i > 0 then waitInterval c (reconnectInterval d) w else (None, w)) = (waited, w0)\<close>
                waited cm ok conn ds Suc.prems
              have "reconnectLoop k e c (i + 1) (Some err) d1 (perform (Logged err) 0 w3) = (r, d', w')"
                by (simp add: Let_def)
              from Suc.IH[OF this] d1 show ?thesis by auto
            qed
          qed
        qed
      qed
    qed
  qed
qed

lemma reachable_invariant:
  "reachable d \<Longrightarrow> reflectionClient d = None \<longrightarrow> services d = []"
proof (induction rule: reachable.induct)
  case (reachable_new config)
  then show ?case by (simp add: NewServiceDiscoverer_def)
next
  case (reachable_Connect d e c w r d' w')
  from Connect_invariant[OF reachable_Connect.hyps(2) reachable_Connect.IH] show ?case .
next
  case (reachable_DiscoverServices d e c w r d' w')
  show ?case
  proof (cases "reflectionClient d")
    case None
    with reachable_DiscoverServices show ?thesis
      by (simp add: DiscoverServices_not_connected)
  next
    case (Some cn)
    with DiscoverServices_client[OF reachable_DiscoverServices.hyps(2)] show ?thesis by simp
  qed
next
  case (reachable_Reconnect d e c w r d' w')
  from reachable_Reconnect.hyps(2) reconnectLoop_client
  have "(reflectionClient d' = reflectionClient d \<and> services d' = services d) \<or> reflectionClient d' \<noteq> None"
    unfolding Reconnect_def by blast
  with reachable_Reconnect.IH show ?case by auto
next
  case (reachable_Close d e w r d' w')
  then show ?case by (auto simp: Close_def Let_def)
qed

lemma InvokeMethod_streaming:
  assumes "reflectionClient d \<noteq> None"
    and "GetMethod w d serviceName methodName = Some m"
    and "IsClientStreaming m \<or> IsServerStreaming m"
  shows "InvokeMethod e c serviceName methodName inputJSON d w = (Inl StreamingNotSupported, w)"
  using assms by (auto simp: InvokeMethod_def split: option.splits)

text \<open>
  Claim C1. In every state a discoverer can reach, for every method the catalog holds
  with the client-streaming or the server-streaming flag set and for every input JSON,
  \<open>InvokeMethod\<close> and \<open>InvokeMethodWithHeaders\<close> on that method return the
  streaming-not-supported error and leave the world as it is: no call on the reflection
  client or the connection manager is recorded. (A catalog that holds a method implies a
  reflection client, so the not-connected guard does not fire.)
\<close>

theorem streaming_methods_are_rejected:
  assumes "reachable d"
    and "GetMethod w d serviceName methodName = Some m"
    and "IsClientStreaming m \<or> IsServerStreaming m"
  shows "InvokeMethod e c serviceName methodName inputJSON d w = (Inl StreamingNotSupported, w)
       \<and> InvokeMethodWithHeaders e c headers serviceName methodName inputJSON d w
            = (Inl StreamingNotSupported, w)"
proof -
  from assms(2) have "services d \<noteq> []"
    by (auto simp: GetMethod_def GetService_def split: option.splits)
  with reachable_invariant[OF assms(1)] have rc: "reflectionClient d \<noteq> None" by blast
  have 1: "\<And>c. InvokeMethod e c serviceName methodName inputJSON d w = (Inl StreamingNotSupported, w)"
    by (rule InvokeMethod_streaming[OF rc assms(2) assms(3)])
  from rc 1 show ?thesis
    by (auto simp: InvokeMethodWithHeaders_def Let_def split: option.splits)
qed

lemma afterConnect_eval:
  "afterConnect = (None, (NewServiceDiscoverer reflectionOnly)\<lparr>reflectionClient := Some 1\<rparr>,
     \<lparr>clock = 2, events = [CM_Connect background, CM_GetConnection, RC_HealthCheck 1 background],
      heap = (\<lambda>a. []), nextAddr = 0\<rparr>)"
  by (simp add: afterConnect_def Connect_def exampleEnv_def perform_def emptyWorld_def Let_def)

lemma afterDiscovery_eval:
  "afterDiscovery = (None,
     (NewServiceDiscoverer reflectionOnly)\<lparr>reflectionClient := Some 1,
        services := [(''pkg.sub.Widget'',
           \<lparr>ServiceName = ''pkg.sub.Widget'', Methods = \<lparr>sliceArray = 0, sliceLen = 2\<rparr>\<rparr>)]\<rparr>,
     \<lparr>clock = 3, events = [CM_Connect background, CM_GetConnection, RC_HealthCheck 1 background,
                             RC_DiscoverServices 1 background],
      heap = (\<lambda>a. [])(0 := [doThing, watch]), nextAddr = 1\<rparr>)"
  by (simp add: afterDiscovery_def afterConnect_eval DiscoverServices_def discoverFromReflection_def
      exampleEnv_def perform_def alloc_def NewServiceDiscoverer_def reflectionOnly_def)

lemma afterDiscovery_reachable: "reachable (fst (snd afterDiscovery))"
proof -
  have "reachable (NewServiceDiscoverer reflectionOnly)" by (rule reachable_new)
  then have "reachable (fst (snd afterConnect))"
    by (rule reachable_Connect[where e = exampleEnv and c = background and w = emptyWorld
          and r = "fst afterConnect" and w' = "snd (snd afterConnect)"])
       (simp add: afterConnect_def)
  then show ?thesis
    by (rule reachable_DiscoverServices[where e = exampleEnv and c = background
          and w = "snd (snd afterConnect)" and r = "fst afterDiscovery"
          and w' = "snd (snd afterDiscovery)"])
       (simp add: afterDiscovery_def)
qed

lemma afterDiscovery_Watch:
  "GetMethod (snd (snd afterDiscovery)) (fst (snd afterDiscovery)) ''pkg.sub.Widget'' ''Watch'' = Some watch"
  by (simp add: afterDiscovery_eval GetMethod_def GetService_def sliceElems_def doThing_def watch_def)

theorem streaming_methods_are_rejected_witness:
  "reachable (fst (snd afterDiscovery))
   \<and> GetMethod (snd (snd afterDiscovery)) (fst (snd afterDiscovery)) ''pkg.sub.Widget'' ''Watch'' = Some watch
   \<and> IsServerStreaming watch
   \<and> InvokeMethod exampleEnv background ''pkg.sub.Widget'' ''Watch'' ''{}''
        (fst (snd afterDiscovery)) (snd (snd afterDiscovery))
       = (Inl StreamingNotSupported, snd (snd afterDiscovery))
   \<and> InvokeMethodWithHeaders exampleEnv background [(''authorization'', ''Bearer token123'')]
        ''pkg.sub.Widget'' ''Watch'' ''{}'' (fst (snd afterDiscovery)) (snd (snd afterDiscovery))
       = (Inl StreamingNotSupported, snd (snd afterDiscovery))"
proof -
  have s: "IsClientStreaming watch \<or> IsServerStreaming watch"
    by (simp add: watch_def)
  from streaming_methods_are_rejected[OF afterDiscovery_reachable afterDiscovery_Watch s]
    afterDiscovery_reachable afterDiscovery_Watch
  show ?thesis by (simp add: watch_def)
qed

subsection \<open>The deadline of the wire call\<close>

lemma fold_Append_deadline:
  "deadline (fold (\<lambda>(k, v) c. AppendToOutgoingContext c k v) headers c) = deadline c
   \<and> canceledAt (fold (\<lambda>(k, v) c. AppendToOutgoingContext c k v) headers c) = canceledAt c
   \<and> outgoingMD (fold (\<lambda>(k, v) c. AppendToOutgoingContext c k v) headers c) = outgoingMD c @ headers"
  by (induction headers arbitrary: c) (auto simp: AppendToOutgoingContext_def)

lemma InvokeMethod_events:
  "events (snd (InvokeMethod e c serviceName methodName inputJSON d w)) = events w
   \<or> (\<exists>cn m. events (snd (InvokeMethod e c serviceName methodName inputJSON d w))
               = events w @ [RC_InvokeMethod cn c m inputJSON])"
  by (auto simp: InvokeMethod_def perform_def split: option.splits prod.splits sum.splits)

text \<open>
  Claim C2, as amended. The wire call of \<open>InvokeMethod\<close> is performed under the
  caller's context itself, and the wire call of \<open>InvokeMethodWithHeaders\<close> under a
  context with the caller's deadline and cancellation and with the headers appended to
  the outgoing metadata: the discoverer sets no deadline of its own.
\<close>

theorem wire_call_runs_under_the_callers_deadline:
  "(events (snd (InvokeMethod e c serviceName methodName inputJSON d w)) = events w
    \<or> (\<exists>cn m. events (snd (InvokeMethod e c serviceName methodName inputJSON d w))
                = events w @ [RC_InvokeMethod cn c m inputJSON]))
   \<and> (events (snd (InvokeMethodWithHeaders e c headers serviceName methodName inputJSON d w)) = events w
      \<or> (\<exists>cn m c'. events (snd (InvokeMethodWithHeaders e c headers serviceName methodName inputJSON d w))
                     = events w @ [RC_InvokeMethod cn c' m inputJSON]
                   \<and> deadline c' = deadline c \<and> canceledAt c' = canceledAt c
                   \<and> outgoingMD c' = outgoingMD c @ headers))"
proof
  show "events (snd (InvokeMethod e c serviceName methodName inputJSON d w)) = events w
    \<or> (\<exists>cn m. events (snd (InvokeMethod e c serviceName methodName inputJSON d w))
                = events w @ [RC_InvokeMethod cn c m inputJSON])"
    by (rule InvokeMethod_events)
next
  show "events (snd (InvokeMethodWithHeaders e c headers serviceName methodName inputJSON d w)) = events w
      \<or> (\<exists>cn m c'. events (snd (InvokeMethodWithHeaders e c headers serviceName methodName inputJSON d w))
                     = events w @ [RC_InvokeMethod cn c' m inputJSON]
                   \<and> deadline c' = deadline c \<and> canceledAt c' = canceledAt c
                   \<and> outgoingMD c' = outgoingMD c @ headers)"
  proof (cases "reflectionClient d")
    case None
    then show ?thesis by (simp add: InvokeMethodWithHeaders_def)
  next
    case (Some cn)
    let ?c1 = "fold (\<lambda>(k, v) c. AppendToOutgoingContext c k v) headers c"
    have eq: "InvokeMethodWithHeaders e c headers serviceName methodName inputJSON d w
        = InvokeMethod e ?c1 serviceName methodName inputJSON d w"
      using Some by (simp add: InvokeMethodWithHeaders_def)
    from InvokeMethod_events[of e ?c1 serviceName methodName inputJSON d w] fold_Append_deadline[of headers c]
    show ?thesis unfolding eq by blast
  qed
qed

text \<open>
  The claim as stated fails: a caller's context with a deadline of 100 seconds reaches
  the reflection client unchanged, not with a deadline of 30 seconds.
\<close>

theorem no_thirty_second_deadline_counterexample:
  "events (snd (InvokeMethod exampleEnv lateDeadline ''pkg.sub.Widget'' ''DoThing'' ''{}''
                  widgetCatalog widgetWorld))
     = [RC_InvokeMethod 1 lateDeadline doThing ''{}'']
   \<and> clock widgetWorld = 0
   \<and> deadline lateDeadline = Some (100 * Second)
   \<and> deadline lateDeadline \<noteq> Some (clock widgetWorld + 30 * Second)"
  by (simp add: InvokeMethod_def GetMethod_def GetService_def sliceElems_def widgetCatalog_def
      widgetWorld_def exampleEnv_def perform_def doThing_def lateDeadline_def Second_def)

theorem wire_call_runs_under_the_callers_deadline_witness:
  "events (snd (InvokeMethodWithHeaders exampleEnv lateDeadline [(''authorization'', ''Bearer token123'')]
                  ''pkg.sub.Widget'' ''DoThing'' ''{}'' widgetCatalog widgetWorld))
     = [RC_InvokeMethod 1 (lateDeadline\<lparr>outgoingMD := [(''authorization'', ''Bearer token123'')]\<rparr>) doThing ''{}'']"
  using wire_call_runs_under_the_callers_deadline
    [of exampleEnv lateDeadline "''pkg.sub.Widget''" "''DoThing''" "''{}''" widgetCatalog widgetWorld
        "[(''authorization'', ''Bearer token123'')]"]
  by (simp add: InvokeMethodWithHeaders_def InvokeMethod_def GetMethod_def GetService_def sliceElems_def
      widgetCatalog_def widgetWorld_def exampleEnv_def perform_def doThing_def lateDeadline_def
      AppendToOutgoingContext_def)

section \<open>Reconnecting\<close>

lemma storeServices_frame:
  "storeServices found catalog w = (catalog', w') \<Longrightarrow> clock w' = clock w \<and> events w' = events w"
proof (induction found arbitrary: catalog w)
  case Nil
  then show ?case by simp
next
  case (Cons service rest)
  from Cons.prems show ?case
    by (auto simp: alloc_def dest!: Cons.IH)
qed

lemma convertServices_frame:
  "convertServices found catalog w = (catalog', w') \<Longrightarrow> clock w' = clock w \<and> events w' = events w"
proof (induction found arbitrary: catalog w)
  case Nil
  then show ?case by simp
next
  case (Cons service rest)
  from Cons.prems show ?case
    by (auto simp: alloc_def dest!: Cons.IH)
qed

lemma discoverFromReflection_frame:
  assumes "discoverFromReflection e c cn d w = (r, d', w')"
  shows "clock w \<le> clock w' \<and>
    (\<exists>evs. events w' = events w @ evs \<and> (\<forall>c'. CM_Reconnect c' \<notin> set evs) \<and> (\<forall>n. Slept n \<notin> set evs))"
proof (cases "rcDiscoverServices e w cn c")
  case (Pair res t)
  show ?thesis
  proof (cases res)
    case (Inl err)
    with Pair assms show ?thesis
      by (auto simp: discoverFromReflection_def perform_def)
  next
    case (Inr found)
    obtain catalog w1 where st:
      "storeServices found [] (perform (RC_DiscoverServices cn c) t w) = (catalog, w1)"
      by (cases "storeServices found [] (perform (RC_DiscoverServices cn c) t w)") auto
    from storeServices_frame[OF st] Pair Inr assms st show ?thesis
      by (auto simp: discoverFromReflection_def perform_def)
  qed
qed

lemma discoverFromFileDescriptor_frame:
  assumes "discoverFromFileDescriptor e d w = (r, d', w')"
  shows "clock w \<le> clock w' \<and>
    (\<exists>evs. events w' = events w @ evs \<and> (\<forall>c'. CM_Reconnect c' \<notin> set evs) \<and> (\<forall>n. Slept n \<notin> set evs))"
proof (cases "loadFromFile e w (Path (descriptorConfig d))")
  case (Pair res t)
  let ?w1 = "perform (Loader_LoadFromFile (Path (descriptorConfig d))) t w"
  let ?w2 = "perform Loader_BuildRegistry 0 ?w1"
  let ?w3 = "perform Loader_ExtractServiceInfo 0 ?w2"
  show ?thesis
  proof (cases res)
    case (Some err)
    with Pair assms show ?thesis
      by (auto simp: discoverFromFileDescriptor_def perform_def)
  next
    case None
    note load = this
    show ?thesis
    proof (cases "buildRegistry e ?w1")
      case (Some err)
      with Pair load assms show ?thesis
        by (auto simp: discoverFromFileDescriptor_def perform_def Let_def)
    next
      case None
      note build = this
      show ?thesis
      proof (cases "extractServiceInfo e ?w2")
        case (Inl err)
        with Pair load build assms show ?thesis
          by (auto simp: discoverFromFileDescriptor_def perform_def Let_def)
      next
        case (Inr enhanced)
        obtain catalog w4 where cv: "convertServices enhanced [] ?w3 = (catalog, w4)"
          by (cases "convertServices enhanced [] ?w3") auto
        from convertServices_frame[OF cv] Pair load build Inr assms cv show ?thesis
          by (auto simp: discoverFromFileDescriptor_def perform_def Let_def)
      qed
    qed
  qed
qed

lemma DiscoverServices_frame:
  assumes ds: "DiscoverServices e c d w = (r, d', w')"
  shows "clock w \<le> clock w' \<and>
    (\<exists>evs. events w' = events w @ evs \<and> (\<forall>c'. CM_Reconnect c' \<notin> set evs) \<and> (\<forall>n. Slept n \<notin> set evs))"
proof (cases "reflectionClient d")
  case None
  with ds show ?thesis by (simp add: DiscoverServices_def)
next
  case (Some cn)
  show ?thesis
  proof (cases "Enabled (descriptorConfig d) \<and> Path (descriptorConfig d) \<noteq> []")
    case False
    with Some ds have "discoverFromReflection e c cn d w = (r, d', w')"
      by (auto simp: DiscoverServices_def)
    then show ?thesis by (rule discoverFromReflection_frame)
  next
    case True
    obtain r1 d1 w1 where fd: "discoverFromFileDescriptor e d w = (r1, d1, w1)"
      by (cases "discoverFromFileDescriptor e d w") auto
    note f1 = discoverFromFileDescriptor_frame[OF fd]
    show ?thesis
    proof (cases r1)
      case None
      with Some True fd ds have "w' = w1" by (simp add: DiscoverServices_def)
      with f1 show ?thesis by simp
    next
      case (Some err)
      with \<open>reflectionClient d = Some cn\<close> True fd ds
      have "discoverFromReflection e c cn d1 (perform (Logged err) 0 w1) = (r, d', w')"
        by (simp add: DiscoverServices_def)
      from discoverFromReflection_frame[OF this] f1 show ?thesis
        by (auto simp: perform_def)
    qed
  qed
qed

lemma reconnectLoop_done:
  assumes "doneAt c = Some t" and "t \<le> clock w" and "0 < i"
  shows "reconnectLoop (Suc k) e c i lastErr d w = (Some (ctxErr c), d, w)"
  using assms by (simp add: waitInterval_def)

lemma doneAt_deadline:
  "deadline c = Some t \<Longrightarrow> \<exists>t'. doneAt c = Some t' \<and> t' \<le> t"
  by (cases "canceledAt c") (auto simp: doneAt_def)

text \<open>
  Claim C6, as amended. For every context whose deadline has passed when \<open>Reconnect\<close>
  is called, with at least two attempts allowed (the default is five): \<open>Reconnect\<close>
  makes its first attempt without consulting the context, so one call of the connection
  manager's \<open>Reconnect\<close> is recorded, and no second one; it never waits for the
  reconnect interval. It returns nil exactly when that first attempt succeeds (the
  connection manager reconnects, has a connection, and the discovery that follows
  succeeds; the discoverer and the world are then those the discovery has left), and the
  error of the context when the dial fails, when there is no connection, or when the
  discovery fails.
\<close>

theorem Reconnect_with_expired_context:
  assumes dl: "deadline c = Some t" and late: "t \<le> clock w"
    and attempts: "2 \<le> maxReconnectAttempts d"
    and run: "Reconnect e c d w = (r, d', w')"
  shows "(\<exists>rest. events w' = events w @ CM_Reconnect c # rest
           \<and> (\<forall>c'. CM_Reconnect c' \<notin> set rest) \<and> (\<forall>n. Slept n \<notin> set rest)
           \<and> (r = None \<or> r = Some (ctxErr c)))
       \<and> (\<forall>err t1. cmReconnect e w c = (Some err, t1) \<longrightarrow> r = Some (ctxErr c))
       \<and> (\<forall>t1. cmReconnect e w c = (None, t1)
              \<and> cmGetConnection e (perform (CM_Reconnect c) t1 w) = None \<longrightarrow>
            r = Some (ctxErr c))
       \<and> (\<forall>t1 cn err d1 w3. cmReconnect e w c = (None, t1)
              \<and> cmGetConnection e (perform (CM_Reconnect c) t1 w) = Some cn
              \<and> DiscoverServices e c (d\<lparr>reflectionClient := Some cn\<rparr>)
                    (perform CM_GetConnection 0 (perform (CM_Reconnect c) t1 w)) = (Some err, d1, w3) \<longrightarrow>
            r = Some (ctxErr c))
       \<and> (\<forall>t1 cn d1 w3. cmReconnect e w c = (None, t1)
              \<and> cmGetConnection e (perform (CM_Reconnect c) t1 w) = Some cn
              \<and> DiscoverServices e c (d\<lparr>reflectionClient := Some cn\<rparr>)
                    (perform CM_GetConnection 0 (perform (CM_Reconnect c) t1 w)) = (None, d1, w3) \<longrightarrow>
            r = None \<and> d' = d1 \<and> w' = w3)"
proof -
  from doneAt_deadline[OF dl] obtain t' where dn: "doneAt c = Some t'" and t': "t' \<le> t"
    by blast
  from attempts have "2 \<le> nat (maxReconnectAttempts d)" by simp
  then obtain j where "nat (maxReconnectAttempts d) = 2 + j"
    using le_Suc_ex by blast
  then have k: "nat (maxReconnectAttempts d) = Suc (Suc j)" by simp
  obtain res t1 where cm: "cmReconnect e w c = (res, t1)"
    by (cases "cmReconnect e w c") auto
  let ?w1 = "perform (CM_Reconnect c) t1 w"
  let ?w2 = "perform CM_GetConnection 0 ?w1"
  from run k have loop: "reconnectLoop (Suc (Suc j)) e c 0 None d w = (r, d', w')"
    by (simp add: Reconnect_def)
  show ?thesis
  proof (cases res)
    case (Some err)
    let ?w = "perform (Logged err) 0 ?w1"
    from dn t' late have "t' \<le> clock ?w" by (simp add: perform_def)
    from reconnectLoop_done[OF dn this, of 1 j e "Some err" d] loop cm Some
    have out: "r = Some (ctxErr c)" and w': "w' = ?w" by simp_all
    from w' have "events w' = events w @ CM_Reconnect c # [Logged err]" by (simp add: perform_def)
    then have trace: "\<exists>rest. events w' = events w @ CM_Reconnect c # rest
           \<and> (\<forall>c'. CM_Reconnect c' \<notin> set rest) \<and> (\<forall>n. Slept n \<notin> set rest)
           \<and> (r = None \<or> r = Some (ctxErr c))"
      using out by auto
    from trace out cm Some show ?thesis by simp
  next
    case None
    note ok = this
    show ?thesis
    proof (cases "cmGetConnection e ?w1")
      case None
      from dn t' late have "t' \<le> clock ?w2" by (simp add: perform_def)
      from reconnectLoop_done[OF dn this, of 1 j e "Some NilConnectionAfterReconnect" d] loop cm ok None
      have out: "r = Some (ctxErr c)" and w': "w' = ?w2" by (simp_all add: Let_def)
      from w' have "events w' = events w @ CM_Reconnect c # [CM_GetConnection]"
        by (simp add: perform_def)
      then have trace: "\<exists>rest. events w' = events w @ CM_Reconnect c # rest
           \<and> (\<forall>c'. CM_Reconnect c' \<notin> set rest) \<and> (\<forall>n. Slept n \<notin> set rest)
           \<and> (r = None \<or> r = Some (ctxErr c))"
        using out by auto
      from trace out cm ok None show ?thesis by simp
    next
      case (Some cn)
      note conn = this
      obtain r1 d1 w3 where ds:
        "DiscoverServices e c (d\<lparr>reflectionClient := Some cn\<rparr>) ?w2 = (r1, d1, w3)"
        by (cases "DiscoverServices e c (d\<lparr>reflectionClient := Some cn\<rparr>) ?w2") auto
      from DiscoverServices_frame[OF ds] obtain evs where
        clk: "clock ?w2 \<le> clock w3" and evs: "events w3 = events ?w2 @ evs"
        and quiet: "\<forall>c'. CM_Reconnect c' \<notin> set evs" "\<forall>n. Slept n \<notin> set evs"
        by blast
      show ?thesis
      proof (cases r1)
        case None
        with loop cm ok conn ds have out: "r = None" and d': "d' = d1" and w': "w' = w3"
          by (simp_all add: Let_def)
        from w' evs have "events w' = events w @ CM_Reconnect c # (CM_GetConnection # evs)"
          by (simp add: perform_def)
        then have trace: "\<exists>rest. events w' = events w @ CM_Reconnect c # rest
           \<and> (\<forall>c'. CM_Reconnect c' \<notin> set rest) \<and> (\<forall>n. Slept n \<notin> set rest)
           \<and> (r = None \<or> r = Some (ctxErr c))"
          using out quiet by auto
        from trace out d' w' cm ok conn ds None show ?thesis by simp
      next
        case (Some err)
        let ?w = "perform (Logged err) 0 w3"
        from dn t' late clk have "t' \<le> clock ?w" by (simp add: perform_def)
        from reconnectLoop_done[OF dn this, of 1 j e "Some err" d1] loop cm ok conn ds Some
        have out: "r = Some (ctxErr c)" and w': "w' = ?w" by (simp_all add: Let_def)
        from w' evs have "events w' = events w @ CM_Reconnect c # (CM_GetConnection # evs @ [Logged err])"
          by (simp add: perform_def)
        then have trace: "\<exists>rest. events w' = events w @ CM_Reconnect c # rest
           \<and> (\<forall>c'. CM_Reconnect c' \<notin> set rest) \<and> (\<forall>n. Slept n \<notin> set rest)
           \<and> (r = None \<or> r = Some (ctxErr c))"
          using out quiet by auto
        from trace out cm ok conn ds Some show ?thesis by simp
      qed
    qed
  qed
qed

lemma reconnectLoop_first_failure:
  assumes "cmReconnect e w c = (Some err, t)" and "doneAt c = Some t'" and "t' \<le> clock w"
  shows "reconnectLoop (Suc (Suc k)) e c 0 None d w
     = (Some (ctxErr c), d, perform (Logged err) 0 (perform (CM_Reconnect c) t w))"
  using assms by (simp add: waitInterval_def perform_def)

lemma Reconnect_expired_eval:
  "Reconnect exampleEnv expired (NewServiceDiscoverer reflectionOnly) lateWorld
       = (Some DeadlineExceeded, NewServiceDiscoverer reflectionOnly,
          lateWorld\<lparr>clock := 11,
                      events := [CM_Reconnect expired, Logged (External ''dial failed'')]\<rparr>)"
proof -
  have n: "nat (maxReconnectAttempts (NewServiceDiscoverer reflectionOnly)) = Suc (Suc 3)"
    by (simp add: NewServiceDiscoverer_def)
  have dn: "doneAt expired = Some 5" by (simp add: doneAt_def expired_def)
  have late: "5 \<le> clock lateWorld" by (simp add: lateWorld_def)
  have err: "ctxErr expired = DeadlineExceeded" by (simp add: ctxErr_def expired_def)
  have cm: "cmReconnect exampleEnv lateWorld expired = (Some (External ''dial failed''), 1)"
    by (simp add: exampleEnv_def)
  show ?thesis
    unfolding Reconnect_def n reconnectLoop_first_failure[OF cm dn late] err
    by (simp add: perform_def lateWorld_def)
qed

text \<open>
  The claim as stated fails: with a deadline that passed at time 5 and the clock at 10,
  \<open>Reconnect\<close> still calls the connection manager once before it returns the
  error of the context.
\<close>

theorem Reconnect_attempts_once_counterexample:
  "deadline expired = Some 5 \<and> clock lateWorld = 10
   \<and> events (snd (snd (Reconnect exampleEnv expired (NewServiceDiscoverer reflectionOnly) lateWorld)))
       = [CM_Reconnect expired, Logged (External ''dial failed'')]"
  by (simp add: Reconnect_expired_eval) (simp add: expired_def lateWorld_def)

text \<open>
  The four outcomes of the first attempt, under the expired context: the dial fails; the
  attempt succeeds; there is no connection; the discovery fails.
\<close>

lemma rediscovery_succeeds:
  "fst (DiscoverServices recoveringEnv expired
          ((NewServiceDiscoverer reflectionOnly)\<lparr>reflectionClient := Some 1\<rparr>)
          (perform CM_GetConnection 0 (perform (CM_Reconnect expired) 1 lateWorld))) = None"
  by (simp add: DiscoverServices_def discoverFromReflection_def NewServiceDiscoverer_def
      reflectionOnly_def recoveringEnv_def exampleEnv_def alloc_def split: prod.splits)

lemma rediscovery_fails:
  "fst (DiscoverServices failingDiscoveryEnv expired
          ((NewServiceDiscoverer reflectionOnly)\<lparr>reflectionClient := Some 1\<rparr>)
          (perform CM_GetConnection 0 (perform (CM_Reconnect expired) 1 lateWorld)))
     = Some (ReflectionDiscoveryFailed (External ''unavailable''))"
  by (simp add: DiscoverServices_def discoverFromReflection_def NewServiceDiscoverer_def
      reflectionOnly_def failingDiscoveryEnv_def recoveringEnv_def exampleEnv_def split: prod.splits)

theorem Reconnect_with_expired_context_witness:
  "deadline expired = Some 5 \<and> 5 \<le> clock lateWorld
   \<and> 2 \<le> maxReconnectAttempts (NewServiceDiscoverer reflectionOnly)
   \<and> (\<exists>rest. events (snd (snd (Reconnect exampleEnv expired (NewServiceDiscoverer reflectionOnly) lateWorld)))
               = events lateWorld @ CM_Reconnect expired # rest
             \<and> (\<forall>c'. CM_Reconnect c' \<notin> set rest) \<and> (\<forall>n. Slept n \<notin> set rest))
   \<and> fst (Reconnect exampleEnv expired (NewServiceDiscoverer reflectionOnly) lateWorld)
        = Some DeadlineExceeded
   \<and> fst (Reconnect recoveringEnv expired (NewServiceDiscoverer reflectionOnly) lateWorld) = None
   \<and> fst (Reconnect nilConnectionEnv expired (NewServiceDiscoverer reflectionOnly) lateWorld)
        = Some DeadlineExceeded
   \<and> fst (Reconnect failingDiscoveryEnv expired (NewServiceDiscoverer reflectionOnly) lateWorld)
        = Some DeadlineExceeded"
proof -
  let ?d = "NewServiceDiscoverer reflectionOnly"
  have dl: "deadline expired = Some 5" by (simp add: expired_def)
  have late: "5 \<le> clock lateWorld" by (simp add: lateWorld_def)
  have att: "2 \<le> maxReconnectAttempts ?d"
    by (simp add: NewServiceDiscoverer_def)
  have run: "Reconnect e expired ?d lateWorld
      = (fst (Reconnect e expired ?d lateWorld),
         fst (snd (Reconnect e expired ?d lateWorld)),
         snd (snd (Reconnect e expired ?d lateWorld)))" for e
    by simp
  have err: "ctxErr expired = DeadlineExceeded" by (simp add: ctxErr_def expired_def)
  note dial = Reconnect_with_expired_context[OF dl late att run[of exampleEnv]]
  note good = Reconnect_with_expired_context[OF dl late att run[of recoveringEnv]]
  note nilc = Reconnect_with_expired_context[OF dl late att run[of nilConnectionEnv]]
  note disc = Reconnect_with_expired_context[OF dl late att run[of failingDiscoveryEnv]]
  have cm1: "cmReconnect exampleEnv lateWorld expired = (Some (External ''dial failed''), 1)"
    by (simp add: exampleEnv_def)
  have cm2: "cmReconnect recoveringEnv lateWorld expired = (None, 1)"
    "cmGetConnection recoveringEnv (perform (CM_Reconnect expired) 1 lateWorld) = Some 1"
    by (simp_all add: recoveringEnv_def exampleEnv_def)
  have cm3: "cmReconnect nilConnectionEnv lateWorld expired = (None, 1)"
    "cmGetConnection nilConnectionEnv (perform (CM_Reconnect expired) 1 lateWorld) = None"
    by (simp_all add: nilConnectionEnv_def recoveringEnv_def exampleEnv_def)
  have cm4: "cmReconnect failingDiscoveryEnv lateWorld expired = (None, 1)"
    "cmGetConnection failingDiscoveryEnv (perform (CM_Reconnect expired) 1 lateWorld) = Some 1"
    by (simp_all add: failingDiscoveryEnv_def recoveringEnv_def exampleEnv_def)
  have ds2: "DiscoverServices recoveringEnv expired (?d\<lparr>reflectionClient := Some 1\<rparr>)
          (perform CM_GetConnection 0 (perform (CM_Reconnect expired) 1 lateWorld))
       = (None, snd (DiscoverServices recoveringEnv expired (?d\<lparr>reflectionClient := Some 1\<rparr>)
          (perform CM_GetConnection 0 (perform (CM_Reconnect expired) 1 lateWorld))))"
    using rediscovery_succeeds by (simp add: prod_eq_iff)
  have ds4: "DiscoverServices failingDiscoveryEnv expired (?d\<lparr>reflectionClient := Some 1\<rparr>)
          (perform CM_GetConnection 0 (perform (CM_Reconnect expired) 1 lateWorld))
       = (Some (ReflectionDiscoveryFailed (External ''unavailable'')),
          snd (DiscoverServices failingDiscoveryEnv expired (?d\<lparr>reflectionClient := Some 1\<rparr>)
          (perform CM_GetConnection 0 (perform (CM_Reconnect expired) 1 lateWorld))))"
    using rediscovery_fails by (simp add: prod_eq_iff)
  from dial cm1 err have r1: "fst (Reconnect exampleEnv expired ?d lateWorld) = Some DeadlineExceeded"
    by simp
  from dial have tr: "\<exists>rest. events (snd (snd (Reconnect exampleEnv expired ?d lateWorld)))
               = events lateWorld @ CM_Reconnect expired # rest
             \<and> (\<forall>c'. CM_Reconnect c' \<notin> set rest) \<and> (\<forall>n. Slept n \<notin> set rest)"
    by blast
  from good cm2 ds2 have r2: "fst (Reconnect recoveringEnv expired ?d lateWorld) = None"
    by (metis prod.collapse)
  from nilc cm3 err have r3: "fst (Reconnect nilConnectionEnv expired ?d lateWorld) = Some DeadlineExceeded"
    by simp
  from disc cm4 ds4 err have r4: "fst (Reconnect failingDiscoveryEnv expired ?d lateWorld) = Some DeadlineExceeded"
    by (metis prod.collapse)
  from dl late att tr r1 r2 r3 r4 show ?thesis by blast
qed

section \<open>Reading the catalog\<close>

text \<open>
  Claim C8 fails on the code. The map \<open>GetServices\<close> returns is a copy, but each
  \<open>ServiceInfo\<close> in it shares the backing array of \<open>Methods\<close> with the catalog. A caller
  who writes \<open>Methods[0]\<close> of the returned entry changes what the discoverer's own
  \<open>GetMethod\<close> answers: \<open>DoThing\<close> is gone and the written method is found.
\<close>

theorem GetServices_shares_the_Methods_array:
  "GetServices widgetCatalog = services widgetCatalog
   \<and> GetMethod widgetWorld widgetCatalog ''pkg.sub.Widget'' ''DoThing'' = Some doThing
   \<and> (case sliceStore (Methods (snd (hd (GetServices widgetCatalog)))) 0 watch widgetWorld of
         None \<Rightarrow> False
       | Some w' \<Rightarrow>
           GetMethod w' widgetCatalog ''pkg.sub.Widget'' ''DoThing'' = None
           \<and> GetMethod w' widgetCatalog ''pkg.sub.Widget'' ''Watch'' = Some watch)"
  by (simp add: GetServices_def GetMethod_def GetService_def sliceElems_def sliceStore_def
      widgetCatalog_def widgetWorld_def doThing_def watch_def)

section \<open>The schemas of the scalar kinds\<close>

lemma extractor_scalar_table:
  "specScalarSchema (Field_Kind (attrs field)) = Some schema \<Longrightarrow>
     extractFieldTypeSchemaInternal self reg field visited = Some (Inr schema, visited)"
  by (cases "Field_Kind (attrs field)")
     (auto simp: specScalarSchema_def extractFieldTypeSchemaInternal_def)

lemma builder_scalar_base:
  "specScalarSchema (Field_Kind a) = Some (JObject table) \<Longrightarrow>
     \<exists>base. generateBaseSchema self reg a visited cache = Some (Inr (JObject base), visited, cache)
        \<and> map_of base ''type'' = map_of table ''type''
        \<and> map_of base ''minimum'' = map_of table ''minimum''
        \<and> map_of base ''format'' = (if Field_Kind a = BytesKind then Some (JString ''byte'') else None)"
  by (cases "Field_Kind a")
     (auto simp: specScalarSchema_def generateBaseSchema_def)

lemma extractor_scalar_field:
  assumes "specScalarSchema (Field_Kind (attrs field)) = Some schema"
    and "Field_Cardinality (attrs field) \<noteq> Repeated" and "MapEntry field = None"
  shows "extractFieldSchemaInternal self reg field visited = Some (Inr schema, visited)"
  using assms extractor_scalar_table[of field schema self reg visited]
  by (simp add: extractFieldSchemaInternal_def IsList_def IsMap_def Let_def)

lemma builder_scalar_base_keys:
  "specScalarSchema (Field_Kind a) = Some (JObject table) \<Longrightarrow>
     generateBaseSchema self reg a visited cache = Some (Inr (JObject base), visited, cache) \<Longrightarrow>
     map_of base ''description'' = None \<and> fst ` set base \<subseteq> {''type'', ''minimum'', ''format''}"
  by (cases "Field_Kind a")
     (auto simp: specScalarSchema_def generateBaseSchema_def)

lemma builder_scalar_field:
  assumes table: "specScalarSchema (Field_Kind a) = Some (JObject table)"
    and singular: "Field_Cardinality a \<noteq> Repeated"
  shows "\<exists>schema. generateFieldSchema self reg (FieldDescriptor a None) visited cache
             = Some (Inr (JObject schema), visited, cache)
        \<and> map_of schema ''type'' = map_of table ''type''
        \<and> map_of schema ''minimum'' = map_of table ''minimum''
        \<and> map_of schema ''format'' = (if Field_Kind a = BytesKind then Some (JString ''byte'') else None)
        \<and> map_of schema ''description''
             = (if GetFieldDescription (FieldDescriptor a None) = [] then None
                else Some (JString (GetFieldDescription (FieldDescriptor a None))))
        \<and> fst ` set schema \<subseteq> {''type'', ''minimum'', ''format'', ''description''}"
proof -
  from table have notMessage: "Field_Kind a \<noteq> MessageKind"
    by (auto simp: specScalarSchema_def split: if_splits)
  from builder_scalar_base[OF table, of self reg visited cache] obtain base where
    base: "generateBaseSchema self reg a visited cache = Some (Inr (JObject base), visited, cache)"
    and ty: "map_of base ''type'' = map_of table ''type''"
    and mi: "map_of base ''minimum'' = map_of table ''minimum''"
    and fo: "map_of base ''format'' = (if Field_Kind a = BytesKind then Some (JString ''byte'') else None)"
    by blast
  from builder_scalar_base_keys[OF table base]
  have de: "map_of base ''description'' = None"
    and keys: "fst ` set base \<subseteq> {''type'', ''minimum'', ''format''}"
    by simp_all
  show ?thesis
  proof (cases "GetFieldDescription (FieldDescriptor a None) = []")
    case True
    with base singular have
      "generateFieldSchema self reg (FieldDescriptor a None) visited cache
         = Some (Inr (JObject base), visited, cache)"
      by (simp add: IsList_def IsMap_def Let_def)
    moreover from keys have "fst ` set base \<subseteq> {''type'', ''minimum'', ''format'', ''description''}"
      by blast
    ultimately show ?thesis using ty mi fo de True
      by (intro exI[of _ base]) simp
  next
    case False
    let ?schema = "AList.update ''description''
        (JString (GetFieldDescription (FieldDescriptor a None))) base"
    from base singular False notMessage have
      "generateFieldSchema self reg (FieldDescriptor a None) visited cache
         = Some (Inr (JObject ?schema), visited, cache)"
      by (simp add: IsList_def IsMap_def Let_def)
    moreover have "fst ` set ?schema = insert ''description'' (fst ` set base)"
      by (simp add: dom_update)
    with keys have "fst ` set ?schema \<subseteq> {''type'', ''minimum'', ''format'', ''description''}"
      by blast
    moreover have "map_of ?schema k = map_of base k" if "k \<noteq> ''description''" for k
      using that by (simp add: update_conv')
    then have "map_of ?schema ''type'' = map_of base ''type''"
      "map_of ?schema ''minimum'' = map_of base ''minimum''"
      "map_of ?schema ''format'' = map_of base ''format''"
      by simp_all
    moreover have "map_of ?schema ''description''
        = Some (JString (GetFieldDescription (FieldDescriptor a None)))"
      by (simp add: update_conv')
    ultimately show ?thesis using ty mi fo False
      by (intro exI[of _ ?schema]) simp
  qed
qed

lemma builder_scalar_list:
  assumes table: "specScalarSchema (Field_Kind a) = Some (JObject table)"
    and repeated: "Field_Cardinality a = Repeated"
  shows "\<exists>base. generateFieldSchema self reg (FieldDescriptor a None) visited cache
             = Some (Inr (JObject [(''type'', JString ''array''), (''items'', JObject base)]),
                     visited, cache)
        \<and> map_of base ''type'' = map_of table ''type''
        \<and> map_of base ''minimum'' = map_of table ''minimum''
        \<and> map_of base ''format'' = (if Field_Kind a = BytesKind then Some (JString ''byte'') else None)"
proof -
  from builder_scalar_base[OF table, of self reg visited cache] obtain base where
    base: "generateBaseSchema self reg a visited cache = Some (Inr (JObject base), visited, cache)"
    and props: "map_of base ''type'' = map_of table ''type''"
      "map_of base ''minimum'' = map_of table ''minimum''"
      "map_of base ''format'' = (if Field_Kind a = BytesKind then Some (JString ''byte'') else None)"
    by blast
  from base repeated have
    "generateFieldSchema self reg (FieldDescriptor a None) visited cache
       = Some (Inr (JObject [(''type'', JString ''array''), (''items'', JObject base)]), visited, cache)"
    by (simp add: IsList_def IsMap_def)
  with props show ?thesis by blast
qed

text \<open>
  Claim C4, as amended. In the schema extractor of package descriptors every scalar kind
  compiles to exactly the schema of the fixed mapping table, as the schema of the type
  and as the schema of a singular field; a field of an unsigned 32-bit or fixed 32-bit
  kind compiles to exactly \<open>{"type":"integer","format":"uint32","minimum":0}\<close>. In the
  builder of package tools the schema of a singular field of a scalar kind has the
  \<open>type\<close> and the \<open>minimum\<close> of the table, a \<open>format\<close> for the bytes kind only, the
  description of the field, and no other key; a repeated field of a scalar kind
  compiles to an array whose items have that \<open>type\<close>, \<open>minimum\<close> and \<open>format\<close>.
\<close>

theorem scalar_kinds_compile_to_the_table:
  "(\<forall>self reg field visited schema.
      specScalarSchema (Field_Kind (attrs field)) = Some schema \<longrightarrow>
      extractFieldTypeSchemaInternal self reg field visited = Some (Inr schema, visited))
   \<and> (\<forall>self reg field visited.
      Field_Kind (attrs field) \<in> {Uint32Kind, Fixed32Kind} \<longrightarrow>
      extractFieldTypeSchemaInternal self reg field visited =
        Some (Inr (JObject [(''type'', JString ''integer''), (''format'', JString ''uint32''),
                            (''minimum'', JInt 0)]), visited))
   \<and> (\<forall>self reg a visited cache table.
      specScalarSchema (Field_Kind a) = Some (JObject table) \<longrightarrow>
      (\<exists>base. generateBaseSchema self reg a visited cache = Some (Inr (JObject base), visited, cache)
         \<and> map_of base ''type'' = map_of table ''type''
         \<and> map_of base ''minimum'' = map_of table ''minimum''
         \<and> map_of base ''format'' = (if Field_Kind a = BytesKind then Some (JString ''byte'') else None)))
   \<and> (\<forall>self reg field visited schema.
      specScalarSchema (Field_Kind (attrs field)) = Some schema
      \<and> Field_Cardinality (attrs field) \<noteq> Repeated \<and> MapEntry field = None \<longrightarrow>
      extractFieldSchemaInternal self reg field visited = Some (Inr schema, visited))
   \<and> (\<forall>self reg a visited cache table.
      specScalarSchema (Field_Kind a) = Some (JObject table) \<and> Field_Cardinality a \<noteq> Repeated \<longrightarrow>
      (\<exists>schema. generateFieldSchema self reg (FieldDescriptor a None) visited cache
             = Some (Inr (JObject schema), visited, cache)
         \<and> map_of schema ''type'' = map_of table ''type''
         \<and> map_of schema ''minimum'' = map_of table ''minimum''
         \<and> map_of schema ''format'' = (if Field_Kind a = BytesKind then Some (JString ''byte'') else None)
         \<and> map_of schema ''description''
              = (if GetFieldDescription (FieldDescriptor a None) = [] then None
                 else Some (JString (GetFieldDescription (FieldDescriptor a None))))
         \<and> fst ` set schema \<subseteq> {''type'', ''minimum'', ''format'', ''description''}))
   \<and> (\<forall>self reg a visited cache table.
      specScalarSchema (Field_Kind a) = Some (JObject table) \<and> Field_Cardinality a = Repeated \<longrightarrow>
      (\<exists>base. generateFieldSchema self reg (FieldDescriptor a None) visited cache
             = Some (Inr (JObject [(''type'', JString ''array''), (''items'', JObject base)]),
                     visited, cache)
         \<and> map_of base ''type'' = map_of table ''type''
         \<and> map_of base ''minimum'' = map_of table ''minimum''
         \<and> map_of base ''format'' = (if Field_Kind a = BytesKind then Some (JString ''byte'') else None)))"
proof (intro conjI allI impI)
  fix self reg field visited schema
  assume "specScalarSchema (Field_Kind (attrs field)) = Some schema"
  then show "extractFieldTypeSchemaInternal self reg field visited = Some (Inr schema, visited)"
    by (rule extractor_scalar_table)
next
  fix self reg field visited
  assume "Field_Kind (attrs field) \<in> {Uint32Kind, Fixed32Kind}"
  then have "specScalarSchema (Field_Kind (attrs field)) =
      Some (JObject [(''type'', JString ''integer''), (''format'', JString ''uint32''), (''minimum'', JInt 0)])"
    by (auto simp: specScalarSchema_def)
  then show "extractFieldTypeSchemaInternal self reg field visited =
        Some (Inr (JObject [(''type'', JString ''integer''), (''format'', JString ''uint32''),
                            (''minimum'', JInt 0)]), visited)"
    by (rule extractor_scalar_table)
next
  fix self reg and a :: FieldAttrs and visited cache table
  assume "specScalarSchema (Field_Kind a) = Some (JObject table)"
  then show "\<exists>base. generateBaseSchema self reg a visited cache = Some (Inr (JObject base), visited, cache)
         \<and> map_of base ''type'' = map_of table ''type''
         \<and> map_of base ''minimum'' = map_of table ''minimum''
         \<and> map_of base ''format'' = (if Field_Kind a = BytesKind then Some (JString ''byte'') else None)"
    by (rule builder_scalar_base)
next
  fix self reg field visited schema
  assume "specScalarSchema (Field_Kind (attrs field)) = Some schema
      \<and> Field_Cardinality (attrs field) \<noteq> Repeated \<and> MapEntry field = None"
  then show "extractFieldSchemaInternal self reg field visited = Some (Inr schema, visited)"
    by (simp add: extractor_scalar_field)
next
  fix self reg and a :: FieldAttrs and visited cache table
  assume a: "specScalarSchema (Field_Kind a) = Some (JObject table) \<and> Field_Cardinality a \<noteq> Repeated"
  then have "specScalarSchema (Field_Kind a) = Some (JObject table)" "Field_Cardinality a \<noteq> Repeated"
    by simp_all
  then show "\<exists>schema. generateFieldSchema self reg (FieldDescriptor a None) visited cache
             = Some (Inr (JObject schema), visited, cache)
         \<and> map_of schema ''type'' = map_of table ''type''
         \<and> map_of schema ''minimum'' = map_of table ''minimum''
         \<and> map_of schema ''format'' = (if Field_Kind a = BytesKind then Some (JString ''byte'') else None)
         \<and> map_of schema ''description''
              = (if GetFieldDescription (FieldDescriptor a None) = [] then None
                 else Some (JString (GetFieldDescription (FieldDescriptor a None))))
         \<and> fst ` set schema \<subseteq> {''type'', ''minimum'', ''format'', ''description''}"
    by (rule builder_scalar_field)
next
  fix self reg and a :: FieldAttrs and visited cache table
  assume "specScalarSchema (Field_Kind a) = Some (JObject table) \<and> Field_Cardinality a = Repeated"
  then have "specScalarSchema (Field_Kind a) = Some (JObject table)" "Field_Cardinality a = Repeated"
    by simp_all
  then show "\<exists>base. generateFieldSchema self reg (FieldDescriptor a None) visited cache
             = Some (Inr (JObject [(''type'', JString ''array''), (''items'', JObject base)]),
                     visited, cache)
         \<and> map_of base ''type'' = map_of table ''type''
         \<and> map_of base ''minimum'' = map_of table ''minimum''
         \<and> map_of base ''format'' = (if Field_Kind a = BytesKind then Some (JString ''byte'') else None)"
    by (rule builder_scalar_list)
qed

text \<open>
  The claim as stated fails for the builder: an unsigned 32-bit field named \<open>count\<close>
  compiles to \<open>{"type":"integer","minimum":0,"description":"Field count"}\<close>, without
  the \<open>format\<close> of the table.
\<close>

theorem Builder_uint32_counterexample:
  "Field_Kind (attrs (plainField ''count'' Uint32Kind [])) = Uint32Kind
   \<and> generateFieldSchema (generateMessageSchema 0 []) [] (plainField ''count'' Uint32Kind []) {} []
       = Some (Inr (JObject [(''type'', JString ''integer''), (''minimum'', JInt 0),
                             (''description'', JString ''Field count'')]), {}, [])
   \<and> JObject [(''type'', JString ''integer''), (''minimum'', JInt 0),
               (''description'', JString ''Field count'')]
       \<noteq> JObject [(''type'', JString ''integer''), (''format'', JString ''uint32''), (''minimum'', JInt 0)]"
  by (simp add: plainField_def generateBaseSchema_def GetFieldDescription_def IsList_def IsMap_def)

text \<open>
  On the field \<open>count\<close> of an unsigned 32-bit kind, singular and repeated, and on a
  boolean field.
\<close>

theorem scalar_kinds_compile_to_the_table_witness:
  "specScalarSchema (Field_Kind (attrs (plainField ''count'' Uint32Kind [])))
      = Some (JObject [(''type'', JString ''integer''), (''format'', JString ''uint32''), (''minimum'', JInt 0)])
   \<and> extractFieldTypeSchemaInternal (extractMessageSchemaInternal 0 []) [] (plainField ''count'' Uint32Kind []) {}
      = Some (Inr (JObject [(''type'', JString ''integer''), (''format'', JString ''uint32''),
                            (''minimum'', JInt 0)]), {})
   \<and> extractFieldTypeSchemaInternal (extractMessageSchemaInternal 0 []) [] (plainField ''ok'' BoolKind []) {}
      = Some (Inr (JObject [(''type'', JString ''boolean'')]), {})
   \<and> extractFieldSchemaInternal (extractMessageSchemaInternal 0 []) [] (plainField ''count'' Uint32Kind []) {}
      = Some (Inr (JObject [(''type'', JString ''integer''), (''format'', JString ''uint32''),
                            (''minimum'', JInt 0)]), {})
   \<and> (\<exists>schema. generateFieldSchema (generateMessageSchema 0 []) [] (plainField ''count'' Uint32Kind []) {} []
             = Some (Inr (JObject schema), {}, [])
         \<and> map_of schema ''type'' = Some (JString ''integer'')
         \<and> map_of schema ''minimum'' = Some (JInt 0)
         \<and> map_of schema ''format'' = None
         \<and> map_of schema ''description'' = Some (JString ''Field count'')
         \<and> fst ` set schema \<subseteq> {''type'', ''minimum'', ''format'', ''description''})
   \<and> (\<exists>base. generateFieldSchema (generateMessageSchema 0 []) []
             (FieldDescriptor ((attrs (plainField ''count'' Uint32Kind []))\<lparr>Field_Cardinality := Repeated\<rparr>) None)
             {} []
             = Some (Inr (JObject [(''type'', JString ''array''), (''items'', JObject base)]), {}, [])
         \<and> map_of base ''type'' = Some (JString ''integer'')
         \<and> map_of base ''minimum'' = Some (JInt 0)
         \<and> map_of base ''format'' = None)"
proof -
  let ?a = "attrs (plainField ''count'' Uint32Kind [])"
  let ?table = "[(''type'', JString ''integer''), (''format'', JString ''uint32''), (''minimum'', JInt 0)]"
  have f: "plainField ''count'' Uint32Kind [] = FieldDescriptor ?a None"
    by (simp add: plainField_def)
  have k: "Field_Kind ?a = Uint32Kind" "Field_Cardinality ?a \<noteq> Repeated"
    "MapEntry (plainField ''count'' Uint32Kind []) = None"
    by (simp_all add: plainField_def)
  have b: "specScalarSchema (Field_Kind (attrs (plainField ''ok'' BoolKind [])))
      = Some (JObject [(''type'', JString ''boolean'')])"
    by (simp add: plainField_def specScalarSchema_def)
  have u: "specScalarSchema (Field_Kind ?a) = Some (JObject ?table)"
    by (simp add: plainField_def specScalarSchema_def)
  have r: "specScalarSchema (Field_Kind (?a\<lparr>Field_Cardinality := Repeated\<rparr>)) = Some (JObject ?table)"
    "Field_Cardinality (?a\<lparr>Field_Cardinality := Repeated\<rparr>) = Repeated"
    "Field_Kind (?a\<lparr>Field_Cardinality := Repeated\<rparr>) \<noteq> BytesKind"
    by (simp_all add: plainField_def specScalarSchema_def)
  have d: "GetFieldDescription (plainField ''count'' Uint32Kind []) = ''Field count''"
    by (simp add: plainField_def GetFieldDescription_def)
  note t = scalar_kinds_compile_to_the_table
  note typeSchema = t[THEN conjunct1, rule_format]
  note fieldSchema = t[THEN conjunct2, THEN conjunct2, THEN conjunct2, THEN conjunct1, rule_format]
  note builderField = t[THEN conjunct2, THEN conjunct2, THEN conjunct2, THEN conjunct2,
      THEN conjunct1, rule_format]
  note builderList = t[THEN conjunct2, THEN conjunct2, THEN conjunct2, THEN conjunct2,
      THEN conjunct2, rule_format]
  have c1: "extractFieldTypeSchemaInternal (extractMessageSchemaInternal 0 []) []
        (plainField ''count'' Uint32Kind []) {} = Some (Inr (JObject ?table), {})"
    using u by (rule typeSchema)
  have c2: "extractFieldTypeSchemaInternal (extractMessageSchemaInternal 0 []) []
        (plainField ''ok'' BoolKind []) {} = Some (Inr (JObject [(''type'', JString ''boolean'')]), {})"
    using b by (rule typeSchema)
  have c3: "extractFieldSchemaInternal (extractMessageSchemaInternal 0 []) []
        (plainField ''count'' Uint32Kind []) {} = Some (Inr (JObject ?table), {})"
    by (rule fieldSchema) (simp add: plainField_def specScalarSchema_def)
  have "\<exists>schema. generateFieldSchema (generateMessageSchema 0 []) [] (FieldDescriptor ?a None) {} []
             = Some (Inr (JObject schema), {}, [])
         \<and> map_of schema ''type'' = map_of ?table ''type''
         \<and> map_of schema ''minimum'' = map_of ?table ''minimum''
         \<and> map_of schema ''format'' = (if Field_Kind ?a = BytesKind then Some (JString ''byte'') else None)
         \<and> map_of schema ''description''
              = (if GetFieldDescription (FieldDescriptor ?a None) = [] then None
                 else Some (JString (GetFieldDescription (FieldDescriptor ?a None))))
         \<and> fst ` set schema \<subseteq> {''type'', ''minimum'', ''format'', ''description''}"
    by (rule builderField) (simp add: plainField_def specScalarSchema_def)
  then have c4: "\<exists>schema. generateFieldSchema (generateMessageSchema 0 []) [] (plainField ''count'' Uint32Kind []) {} []
             = Some (Inr (JObject schema), {}, [])
         \<and> map_of schema ''type'' = Some (JString ''integer'')
         \<and> map_of schema ''minimum'' = Some (JInt 0)
         \<and> map_of schema ''format'' = None
         \<and> map_of schema ''description'' = Some (JString ''Field count'')
         \<and> fst ` set schema \<subseteq> {''type'', ''minimum'', ''format'', ''description''}"
    unfolding k(1) f[symmetric] d by simp
  have "\<exists>base. generateFieldSchema (generateMessageSchema 0 []) []
             (FieldDescriptor (?a\<lparr>Field_Cardinality := Repeated\<rparr>) None) {} []
             = Some (Inr (JObject [(''type'', JString ''array''), (''items'', JObject base)]), {}, [])
         \<and> map_of base ''type'' = map_of ?table ''type''
         \<and> map_of base ''minimum'' = map_of ?table ''minimum''
         \<and> map_of base ''format''
              = (if Field_Kind (?a\<lparr>Field_Cardinality := Repeated\<rparr>) = BytesKind
                 then Some (JString ''byte'') else None)"
    by (rule builderList) (simp add: plainField_def specScalarSchema_def)
  with r(3) have c5: "\<exists>base. generateFieldSchema (generateMessageSchema 0 []) []
             (FieldDescriptor (?a\<lparr>Field_Cardinality := Repeated\<rparr>) None) {} []
             = Some (Inr (JObject [(''type'', JString ''array''), (''items'', JObject base)]), {}, [])
         \<and> map_of base ''type'' = Some (JString ''integer'')
         \<and> map_of base ''minimum'' = Some (JInt 0)
         \<and> map_of base ''format'' = None"
    by simp
  from u c1 c2 c3 c4 c5 show ?thesis by (intro conjI)
qed

section \<open>The visited-set of the schema extractor\<close>



subsection \<open>The visited-set is restored\<close>








subsection \<open>Enough fuel\<close>









subsection \<open>Independence of the visited types\<close>







section \<open>The visited-set of the schema builder\<close>

subsection \<open>The visited-set only grows\<close>

lemma generateBase_grows:
  assumes self: "\<forall>d V c r V' c'. self d V c = Some (r, V', c') \<longrightarrow> V \<subseteq> V'"
    and res: "generateBaseSchema self reg a visited cache = Some (r, visited', cache')"
  shows "visited \<subseteq> visited'"
proof (cases "Field_Kind a = MessageKind")
  case True
  with res have "self (Some (resolve reg (Field_Message a))) visited cache = Some (r, visited', cache')"
    by (simp add: generateBaseSchema_def)
  with self show ?thesis by blast
next
  case False
  with res show ?thesis by (cases "Field_Kind a") (auto simp: generateBaseSchema_def)
qed

lemma generateField_grows:
  "\<forall>d V c r V' c'. self d V c = Some (r, V', c') \<longrightarrow> V \<subseteq> V' \<Longrightarrow>
   generateFieldSchema self reg field visited cache = Some (r, visited', cache') \<Longrightarrow>
   visited \<subseteq> visited'"
proof (induction self reg field visited cache arbitrary: r visited' cache'
    rule: generateFieldSchema.induct)
  case (1 self reg a entry visited cache)
  note self = "1.prems"(1) and res = "1.prems"(2)
  from res obtain rb v1 c1 where
    base: "generateBaseSchema self reg a visited cache = Some (rb, v1, c1)"
    by (auto split: option.splits)
  have v1: "visited \<subseteq> v1" using generateBase_grows[OF self base] .
  show ?case
  proof (cases rb)
    case (Inl err)
    with res base v1 show ?thesis by auto
  next
    case (Inr b)
    show ?thesis
    proof (cases "IsList (FieldDescriptor a entry)")
      case True
      with res base Inr v1 show ?thesis by auto
    next
      case notList: False
      show ?thesis
      proof (cases entry)
        case None
        with res base Inr notList v1 show ?thesis
          by (auto simp: Let_def split: json.splits if_splits)
      next
        case (Some kv)
        obtain keyField valueField where kv: "kv = (keyField, valueField)" by (cases kv)
        from res base Inr notList Some kv obtain rk v2 c2 where
          key: "generateFieldSchema self reg keyField v1 c1 = Some (rk, v2, c2)"
          by (auto split: option.splits)
        have v2: "v1 \<subseteq> v2"
          by (rule "1.IH"(1)[OF base refl Inr refl notList Some kv[symmetric] self key])
        show ?thesis
        proof (cases rk)
          case (Inl err)
          with res base Inr notList Some kv key v1 v2 show ?thesis by auto
        next
          case keyOk: (Inr keySchema)
          from res base Inr notList Some kv key keyOk obtain rv v3 c3 where
            val: "generateFieldSchema self reg valueField v2 c2 = Some (rv, v3, c3)"
            by (auto split: option.splits)
          have v3: "v2 \<subseteq> v3"
            by (rule "1.IH"(2)[OF base refl Inr refl notList Some kv[symmetric] key refl keyOk refl self val])
          from res base Inr notList Some kv key keyOk val v1 v2 v3 show ?thesis
            by (cases rv) auto
        qed
      qed
    qed
  qed
qed

lemma generateFields_grows:
  assumes self: "\<forall>d V c r V' c'. self d V c = Some (r, V', c') \<longrightarrow> V \<subseteq> V'"
  shows "generateFields self reg fs visited cache props req = Some (r, visited', cache') \<Longrightarrow>
         visited \<subseteq> visited'"
proof (induction fs arbitrary: visited cache props req)
  case Nil
  then show ?case by auto
next
  case (Cons f fs)
  from Cons.prems obtain rf v1 c1 where
    f: "generateFieldSchema self reg f visited cache = Some (rf, v1, c1)"
    by (auto split: option.splits)
  have v1: "visited \<subseteq> v1" using generateField_grows[OF self f] .
  show ?case
  proof (cases rf)
    case (Inl err)
    with Cons.prems f v1 show ?thesis by auto
  next
    case (Inr fieldSchema)
    with Cons.prems f have "\<exists>p q. generateFields self reg fs v1 c1 p q = Some (r, visited', cache')"
      by auto
    then have "v1 \<subseteq> visited'" using Cons.IH by blast
    with v1 show ?thesis by blast
  qed
qed

lemma generateOneofOptions_grows:
  assumes self: "\<forall>d V c r V' c'. self d V c = Some (r, V', c') \<longrightarrow> V \<subseteq> V'"
  shows "generateOneofOptions self reg fs visited cache opts = Some (r, visited', cache') \<Longrightarrow>
         visited \<subseteq> visited'"
proof (induction fs arbitrary: visited cache opts)
  case Nil
  then show ?case by auto
next
  case (Cons f fs)
  from Cons.prems obtain rf v1 c1 where
    f: "generateFieldSchema self reg f visited cache = Some (rf, v1, c1)"
    by (auto split: option.splits)
  have v1: "visited \<subseteq> v1" using generateField_grows[OF self f] .
  show ?case
  proof (cases rf)
    case (Inl err)
    with Cons.prems f v1 show ?thesis by auto
  next
    case (Inr fieldSchema)
    with Cons.prems f have "\<exists>p. generateOneofOptions self reg fs v1 c1 p = Some (r, visited', cache')"
      by auto
    then have "v1 \<subseteq> visited'" using Cons.IH by blast
    with v1 show ?thesis by blast
  qed
qed

lemma generateOneof_grows:
  assumes self: "\<forall>d V c r V' c'. self d V c = Some (r, V', c') \<longrightarrow> V \<subseteq> V'"
    and res: "generateOneofSchema self reg oneof visited cache = Some (r, visited', cache')"
  shows "visited \<subseteq> visited'"
proof (cases "Oneof_Fields oneof = []")
  case True
  with res show ?thesis by (auto simp: generateOneofSchema_def)
next
  case False
  with res obtain ro v1 c1 where
    opts: "generateOneofOptions self reg (Oneof_Fields oneof) visited cache [] = Some (ro, v1, c1)"
    by (auto simp: generateOneofSchema_def split: option.splits)
  have "visited \<subseteq> v1" using generateOneofOptions_grows[OF self opts] .
  with res False opts show ?thesis
    by (cases ro) (auto simp: generateOneofSchema_def)
qed

lemma generateOneofs_grows:
  assumes self: "\<forall>d V c r V' c'. self d V c = Some (r, V', c') \<longrightarrow> V \<subseteq> V'"
  shows "generateOneofs self reg os visited cache props = Some (r, visited', cache') \<Longrightarrow>
         visited \<subseteq> visited'"
proof (induction os arbitrary: visited cache props)
  case Nil
  then show ?case by auto
next
  case (Cons oneof os)
  from Cons.prems obtain ro v1 c1 where
    f: "generateOneofSchema self reg oneof visited cache = Some (ro, v1, c1)"
    by (auto split: option.splits)
  have v1: "visited \<subseteq> v1" using generateOneof_grows[OF self f] .
  show ?case
  proof (cases ro)
    case (Inl err)
    with Cons.prems f v1 show ?thesis by auto
  next
    case (Inr oneofSchema)
    with Cons.prems f have "\<exists>p. generateOneofs self reg os v1 c1 p = Some (r, visited', cache')"
      by auto
    then have "v1 \<subseteq> visited'" using Cons.IH by blast
    with v1 show ?thesis by blast
  qed
qed

lemma generateMessage_grows:
  "generateMessageSchema n reg desc visited cache = Some (r, visited', cache') \<Longrightarrow>
   visited \<subseteq> visited'"
proof (induction n arbitrary: desc visited cache r visited' cache')
  case 0
  then show ?case by simp
next
  case (Suc n)
  have self: "\<forall>d V c r V' c'. generateMessageSchema n reg d V c = Some (r, V', c') \<longrightarrow> V \<subseteq> V'"
    using Suc.IH by blast
  show ?case
  proof (cases desc)
    case None
    with Suc.prems show ?thesis by auto
  next
    case (Some d)
    let ?W = "insert (Message_FullName d) visited"
    show ?thesis
    proof (cases "Message_FullName d \<in> visited")
      case True
      with Suc.prems Some show ?thesis by (auto simp: Let_def)
    next
      case notV: False
      show ?thesis
      proof (cases "map_of cache (Message_FullName d)")
        case hit: (Some cached)
        with Suc.prems Some notV show ?thesis by (auto simp: Let_def)
      next
        case miss: None
        from Suc.prems Some notV miss obtain rf v1 c1 where
          fs: "generateFields (generateMessageSchema n reg) reg (Message_Fields d) ?W cache [] []
                 = Some (rf, v1, c1)"
          by (auto simp: Let_def split: option.splits)
        have v1: "?W \<subseteq> v1" using generateFields_grows[OF self fs] .
        show ?thesis
        proof (cases rf)
          case (Inl err)
          with Suc.prems Some notV miss fs v1 show ?thesis by (auto simp: Let_def)
        next
          case (Inr pq)
          obtain p q where pq: "pq = (p, q)" by (cases pq)
          from Suc.prems Some notV miss fs Inr pq obtain ro v2 c2 where
            os: "generateOneofs (generateMessageSchema n reg) reg (Message_Oneofs d) v1 c1 p
                   = Some (ro, v2, c2)"
            by (auto simp: Let_def split: option.splits)
          have v2: "v1 \<subseteq> v2" using generateOneofs_grows[OF self os] .
          from Suc.prems Some notV miss fs Inr pq os v1 v2 show ?thesis
            by (cases ro) (auto simp: Let_def)
        qed
      qed
    qed
  qed
qed

subsection \<open>Enough fuel for the builder\<close>











subsection \<open>Independence of the visited types in the builder\<close>









section \<open>The schema of a cycle\<close>

subsection \<open>Where the extractor puts the schema of a field\<close>







subsection \<open>Where the builder puts the schema of a field\<close>








subsection \<open>The builder fails on group fields only\<close>











section \<open>Cyclic descriptor graphs\<close>

text \<open>
  The two compilers on the cycle \<open>A \<rightarrow> B \<rightarrow> A\<close>: \<open>A\<close> and \<open>B\<close> are expanded, and the
  occurrence of \<open>A\<close> inside \<open>B\<close> is the placeholder \<open>{"$ref": "#/definitions/A"}\<close> (the
  builder adds the description of the field to it).
\<close>

lemma extractor_on_the_cycle:
  "extractMessageSchemaInternal 4 [cycleA, cycleB] cycleA {} =
     Some (Inr (JObject
       [(''type'', JString ''object''),
        (''properties'', JObject
          [(''b'', JObject
             [(''type'', JString ''object''),
              (''properties'', JObject [(''a'', refSchema ''A'')])])])]), {})"
  by (simp add: eval_nat_numeral cycleA_def cycleB_def plainField_def resolve_def Let_def
      extractFieldSchemaInternal_def extractFieldTypeSchemaInternal_def wellKnownSchema_def
      IsList_def IsMap_def refSchema_def strings_def)

lemma builder_on_the_cycle:
  "map_option fst (generateMessageSchema 4 [cycleA, cycleB] (Some cycleA) {} []) =
     Some (Inr (JObject
       [(''type'', JString ''object''),
        (''properties'', JObject
          [(''b'', JObject
             [(''type'', JString ''object''),
              (''properties'', JObject
                 [(''a'', JObject [(''$ref'', JString ''#/definitions/A''),
                                   (''description'', JString ''Field a'')])]),
              (''description'', JString ''Field b'')])])]))"
  by (simp add: eval_nat_numeral cycleA_def cycleB_def plainField_def resolve_def Let_def
      generateBaseSchema_def GetFieldDescription_def IsList_def IsMap_def refSchema_def strings_def)



section \<open>A type reached on two branches\<close>

text \<open>
  The builder keeps every name it has marked: on return the visited-set holds the name of
  the compiled type, and all that was in it before.
\<close>

lemma generateMessage_keeps_the_mark:
  assumes res: "generateMessageSchema n reg (Some d) V c = Some (r, V', c')"
  shows "insert (Message_FullName d) V \<subseteq> V'"
proof -
  from res obtain k where n: "n = Suc k" by (cases n) auto
  have grows: "\<forall>d V c r V' c'. generateMessageSchema k reg d V c = Some (r, V', c') \<longrightarrow> V \<subseteq> V'"
    using generateMessage_grows by blast
  let ?W = "insert (Message_FullName d) V"
  show ?thesis
  proof (cases "Message_FullName d \<in> V")
    case True
    with generateMessage_grows[OF res] show ?thesis by blast
  next
    case notV: False
    show ?thesis
    proof (cases "map_of c (Message_FullName d)")
      case (Some cached)
      with res notV show ?thesis unfolding n by (auto simp: Let_def)
    next
      case miss: None
      from res notV miss obtain rf v1 c1 where
        fs: "generateFields (generateMessageSchema k reg) reg (Message_Fields d) ?W c [] []
               = Some (rf, v1, c1)"
        unfolding n by (auto simp: Let_def split: option.splits)
      have v1: "?W \<subseteq> v1" using generateFields_grows[OF grows fs] .
      show ?thesis
      proof (cases rf)
        case (Inl err)
        with res notV miss fs v1 show ?thesis unfolding n by (auto simp: Let_def)
      next
        case (Inr pq)
        obtain p q where pq: "pq = (p, q)" by (cases pq)
        from res notV miss fs Inr pq obtain ro v2 c2 where
          os: "generateOneofs (generateMessageSchema k reg) reg (Message_Oneofs d) v1 c1 p
                 = Some (ro, v2, c2)"
          unfolding n by (auto simp: Let_def split: option.splits)
        have v2: "v1 \<subseteq> v2" using generateOneofs_grows[OF grows os] .
        from res notV miss fs Inr pq os v1 v2 show ?thesis
          unfolding n by (cases ro) (auto simp: Let_def)
      qed
    qed
  qed
qed

text \<open>
  Claim C7. The claim fails for the builder. On the diamond \<open>R {x: L, y: L}\<close>, which has
  no cycle, the extractor expands \<open>L\<close> under \<open>x\<close> and under \<open>y\<close> and returns the empty
  visited-set; the builder expands \<open>L\<close> under \<open>x\<close> only, emits
  \<open>{"$ref": "#/definitions/L"}\<close> under \<open>y\<close>, and returns a visited-set that still holds
  \<open>L\<close> and \<open>R\<close>.
\<close>

theorem Builder_refs_a_type_reached_on_two_branches:
  "extractMessageSchemaInternal 4 [diamondR, diamondL] diamondR {} =
     Some (Inr (JObject
       [(''type'', JString ''object''),
        (''properties'', JObject
          [(''x'', JObject
             [(''type'', JString ''object''),
              (''properties'', JObject
                 [(''n'', JObject [(''type'', JString ''integer''), (''format'', JString ''uint32''),
                                   (''minimum'', JInt 0)])]),
              (''required'', JArray [JString ''n''])]),
           (''y'', JObject
             [(''type'', JString ''object''),
              (''properties'', JObject
                 [(''n'', JObject [(''type'', JString ''integer''), (''format'', JString ''uint32''),
                                   (''minimum'', JInt 0)])]),
              (''required'', JArray [JString ''n''])])])]), {})
   \<and> map_option fst (generateMessageSchema 4 [diamondR, diamondL] (Some diamondR) {} []) =
     Some (Inr (JObject
       [(''type'', JString ''object''),
        (''properties'', JObject
          [(''x'', JObject
             [(''type'', JString ''object''),
              (''properties'', JObject
                 [(''n'', JObject [(''type'', JString ''integer''), (''minimum'', JInt 0),
                                   (''description'', JString ''Field n'')])]),
              (''description'', JString ''Field x'')]),
           (''y'', JObject
             [(''$ref'', JString ''#/definitions/L''),
              (''description'', JString ''Field y'')])])]))
   \<and> map_option (fst \<circ> snd) (generateMessageSchema 4 [diamondR, diamondL] (Some diamondR) {} [])
       = Some {''L'', ''R''}"
proof (intro conjI)
  show "extractMessageSchemaInternal 4 [diamondR, diamondL] diamondR {} =
     Some (Inr (JObject
       [(''type'', JString ''object''),
        (''properties'', JObject
          [(''x'', JObject
             [(''type'', JString ''object''),
              (''properties'', JObject
                 [(''n'', JObject [(''type'', JString ''integer''), (''format'', JString ''uint32''),
                                   (''minimum'', JInt 0)])]),
              (''required'', JArray [JString ''n''])]),
           (''y'', JObject
             [(''type'', JString ''object''),
              (''properties'', JObject
                 [(''n'', JObject [(''type'', JString ''integer''), (''format'', JString ''uint32''),
                                   (''minimum'', JInt 0)])]),
              (''required'', JArray [JString ''n''])])])]), {})"
    by (simp add: eval_nat_numeral diamondR_def diamondL_def plainField_def resolve_def Let_def
        extractFieldSchemaInternal_def extractFieldTypeSchemaInternal_def wellKnownSchema_def
        IsList_def IsMap_def refSchema_def strings_def)
next
  show "map_option fst (generateMessageSchema 4 [diamondR, diamondL] (Some diamondR) {} []) =
     Some (Inr (JObject
       [(''type'', JString ''object''),
        (''properties'', JObject
          [(''x'', JObject
             [(''type'', JString ''object''),
              (''properties'', JObject
                 [(''n'', JObject [(''type'', JString ''integer''), (''minimum'', JInt 0),
                                   (''description'', JString ''Field n'')])]),
              (''description'', JString ''Field x'')]),
           (''y'', JObject
             [(''$ref'', JString ''#/definitions/L''),
              (''description'', JString ''Field y'')])])]))"
    by (simp add: eval_nat_numeral diamondR_def diamondL_def plainField_def resolve_def Let_def
        generateBaseSchema_def GetFieldDescription_def IsList_def IsMap_def refSchema_def strings_def)
next
  show "map_option (fst \<circ> snd) (generateMessageSchema 4 [diamondR, diamondL] (Some diamondR) {} [])
       = Some {''L'', ''R''}"
    by (simp add: eval_nat_numeral diamondR_def diamondL_def plainField_def resolve_def Let_def
        generateBaseSchema_def GetFieldDescription_def IsList_def IsMap_def refSchema_def strings_def)
qed

end
